theory Spec2Isabelle
  imports Main "HOL-Library.Word"
begin

section \<open>JavaScript strings\<close>

text \<open>
  A JavaScript string is a sequence of UTF-16 code units. The regular expression
  \<^verbatim>\<open>/\S/\<close> (no \<^verbatim>\<open>u\<close> flag) tests one code unit at a time against the
  complement of \<^verbatim>\<open>\s\<close>, which is WhiteSpace together with LineTerminator.
\<close>

type_synonym jsstring = "16 word list"

definition js :: "string \<Rightarrow> jsstring" where
  "js s = map of_char s"

definition is_whitespace :: "16 word \<Rightarrow> bool" where
  "is_whitespace c =
     (c \<in> set [0x9, 0xA, 0xB, 0xC, 0xD, 0x20, 0xA0, 0x1680,
                0x2028, 0x2029, 0x202F, 0x205F, 0x3000, 0xFEFF]
      \<or> (0x2000 \<le> c \<and> c \<le> 0x200A))"

definition has_non_whitespace :: "jsstring \<Rightarrow> bool" where
  \<comment> \<open>\<^verbatim>\<open>/\S/.test(result)\<close>\<close>
  "has_non_whitespace result = list_ex (\<lambda>c. \<not> is_whitespace c) result"

definition truthy_flag :: "bool option \<Rightarrow> bool" where
  \<comment> \<open>truthiness of a property that is undefined (\<open>None\<close>) or a boolean\<close>
  "truthy_flag v = (v = Some True)"

definition truthy_text :: "jsstring option \<Rightarrow> bool" where
  \<comment> \<open>truthiness of a property that is undefined (\<open>None\<close>) or a string\<close>
  "truthy_text v = (case v of None \<Rightarrow> False | Some t \<Rightarrow> t \<noteq> [])"

section \<open>Page elements\<close>

text \<open>
  A \<^verbatim>\<open>figure\<close> element is an object that several places refer to: the local
  \<^verbatim>\<open>graphFigure\<close> of the run that created it, \<^verbatim>\<open>document.pyodideMplTarget\<close>
  while it is the installed sink, and the graphic region it is appended to. The figures
  live in a store (a list; a figure is named by its index). \<open>children\<close> counts the
  elements drawn into the figure; \<open>figcaption\<close> is the caption appended to it, if
  any.
\<close>

record figure =
  children :: nat
  figcaption :: "jsstring option"

text \<open>
  The children that the modelled code puts into the three regions of a run target:
  the \<^verbatim>\<open>pre\<close> of the output region (hidden or not, with the \<^verbatim>\<open>div\<close> whose
  innerHTML is the drained block when there is one), the \<^verbatim>\<open>figure\<close> of the graphic
  region (by its index in the store), and the two \<^verbatim>\<open>div\<close>s of a rendered
  feedback reply. A region is its children together with the class mark
  \<^verbatim>\<open>has-content\<close>.
\<close>

datatype node =
    Pre bool "jsstring option"
  | Figure nat
  | FeedbackLabel
  | FeedbackText jsstring

record region =
  innerHTML :: "node list"
  has_content :: bool

section \<open>Errors, the capture buffer, the interpreter\<close>

datatype js_error = TypeError | Rejected jsstring

datatype completion = Returned | Threw js_error

datatype stream = Out | Error | Stdout | Stderr

datatype 'v payload = Text jsstring | Value 'v | Caught js_error

type_synonym 'v entry = "'v payload \<times> stream"

datatype written = ToStdout jsstring | ToStderr jsstring

text \<open>
  What the script of one \<^verbatim>\<open>runPythonAsync\<close> does when it executes: the texts it
  sends to the stdout and stderr sinks, the number of elements it draws into the figure
  that is \<^verbatim>\<open>document.pyodideMplTarget\<close> at that moment, and the value the call
  resolves with or the error it rejects with.
\<close>

record 'v settled =
  written :: "written list"
  drawn :: nat
  outcome :: "js_error + 'v"

text \<open>
  The interpreter of one run. \<open>mainPyodide\<close> is the outcome of
  \<^verbatim>\<open>await mainPyodide\<close>: \<open>None\<close> when the interpreter is there, \<open>Some m\<close> when
  the step throws an error of message \<open>m\<close> (the start-up promise rejects).
  \<open>loadPackagesFromImports\<close> resolves (\<open>None\<close>) or rejects.
\<close>

record 'v interpreter =
  mainPyodide :: "jsstring option"
  loadPackagesFromImports :: "jsstring \<Rightarrow> js_error option"
  runPythonAsync :: "jsstring \<Rightarrow> 'v settled"

datatype call = LoadPackages jsstring | RunPython jsstring

section \<open>Network protocol of the feedback pipeline\<close>

text \<open>
  The reply of \<^verbatim>\<open>response.json()\<close> to a feedback request, by the shape the
  protocol gives it: \<^verbatim>\<open>null\<close>, or an object whose \<^verbatim>\<open>choices\<close>, when present,
  is an array of objects whose \<^verbatim>\<open>message\<close>, when present, is an object whose
  \<^verbatim>\<open>content\<close>, when present, is a string. \<open>None\<close> is an absent property.
\<close>

datatype chat_message = Message "jsstring option"

datatype choice = Choice "chat_message option"

datatype reply = Null | Object "choice list option"

datatype 'a fetched = Failed js_error | Json 'a

record chat_request =
  messages :: "(jsstring \<times> jsstring) list"
  model :: "jsstring option"

datatype request =
    Get jsstring jsstring
  | Post jsstring "jsstring option" chat_request

datatype alert = Alert jsstring "js_error option"

text \<open>
  The network of one feedback request: the outcome of the model listing (the ids of
  \<^verbatim>\<open>modelsData.data\<close>, \<open>None\<close> when \<^verbatim>\<open>data\<close> is absent) and the outcome
  of the POST.
\<close>

record network =
  models_reply :: "jsstring list option fetched"
  feedback_reply :: "reply fetched"

section \<open>An Interactive cell, one of its run targets, and the page\<close>

record options =
  read_only :: "jsstring option"
  fig_cap :: "jsstring option"

record cellData =
  cd_code :: jsstring
  cd_options :: options

text \<open>
  The state the modelled code reads and writes, seen from one cell and one of its run
  targets. \<open>executionLock\<close> is the field that the constructor of \<^verbatim>\<open>BaseCell\<close>
  initialises and that \<^verbatim>\<open>disableInteractiveCells\<close> and
  \<^verbatim>\<open>enableInteractiveCells\<close> assign. \<open>executeLock\<close> is the property the guards
  read; no statement of the source assigns it, so it is undefined (\<open>None\<close>)
  in every cell the constructor builds. \<open>outputFeedbackDiv\<close> is \<open>None\<close> when
  \<^verbatim>\<open>getElementById\<close> finds no feedback region. \<open>run_buttons\<close> holds the
  \<^verbatim>\<open>disabled\<close> property of every \<^verbatim>\<open>.qpyodide-button-run\<close> of the page.
  \<open>figures\<close> is the store of the figures created so far and
  \<open>pyodideMplTarget\<close> the figure installed as \<^verbatim>\<open>document.pyodideMplTarget\<close>
  (\<open>None\<close> before the first run). \<open>interpreter_calls\<close>, \<open>alerts\<close> and
  \<open>requests\<close> log the calls made to the interpreter, to \<^verbatim>\<open>alert\<close> and to
  \<^verbatim>\<open>fetch\<close>.
\<close>

record 'v state =
  code :: jsstring
  options :: options
  executionLock :: bool
  executeLock :: "bool option"
  editor :: jsstring
  initialCode :: jsstring
  outputCodeDiv :: region
  outputFeedbackDiv :: "region option"
  outputGraphDiv :: region
  run_buttons :: "bool list"
  qpyodideOutput :: "'v entry list"
  figures :: "figure list"
  pyodideMplTarget :: "nat option"
  interpreter_calls :: "call list"
  alerts :: "alert list"
  requests :: "request list"

subsection \<open>Construction\<close>

text \<open>
  \<^verbatim>\<open>new InteractiveCell(cellData)\<close>: the constructor of \<^verbatim>\<open>BaseCell\<close>, then
  \<^verbatim>\<open>setupElement\<close> and \<^verbatim>\<open>setupMonacoEditor\<close>. The first argument is
  \<^verbatim>\<open>globalThis.feedback == true\<close>. The feedback region is appended to the
  document, and so found by \<^verbatim>\<open>getElementById\<close>, only when the flag holds and
  the option \<^verbatim>\<open>read-only\<close> is the string \<^verbatim>\<open>"false"\<close>. The output region starts
  with a hidden \<^verbatim>\<open>pre\<close>. The editor is taken as loaded, holding the cell's code.
  The cell's own run button is added to the buttons \<open>buttons\<close> already on the
  page, disabled.
\<close>

definition InteractiveCell :: "bool \<Rightarrow> bool list \<Rightarrow> cellData \<Rightarrow> 'v state" where
  "InteractiveCell feedback buttons cd =
     \<lparr> code = cd_code cd,
       options = cd_options cd,
       executionLock = False,
       executeLock = None,
       editor = cd_code cd,
       initialCode = cd_code cd,
       outputCodeDiv = \<lparr>innerHTML = [Pre True None], has_content = False\<rparr>,
       outputFeedbackDiv =
         (if feedback \<and> read_only (cd_options cd) = Some (js ''false'')
          then Some \<lparr>innerHTML = [], has_content = False\<rparr> else None),
       outputGraphDiv = \<lparr>innerHTML = [], has_content = False\<rparr>,
       run_buttons = buttons @ [True],
       qpyodideOutput = [],
       figures = [],
       pyodideMplTarget = None,
       interpreter_calls = [],
       alerts = [],
       requests = [] \<rparr>"

text \<open>
  Modelled from the spec: qpyodideSetInteractiveButtonState is called by the source and
  defined outside it. The spec has every run trigger show a loading label while the
  interpreter initialises and an enabled Run label afterwards; the call sets the label
  of every run button of the page and enables the buttons when its flag is true.
\<close>

definition qpyodideSetInteractiveButtonState :: "bool \<Rightarrow> 'v state \<Rightarrow> 'v state" where
  "qpyodideSetInteractiveButtonState enableCodeButton s =
     s\<lparr>run_buttons := map (\<lambda>_. \<not> enableCodeButton) (run_buttons s)\<rparr>"

text \<open>
  The click handler of the add-code-block button: \<^verbatim>\<open>setupNewElement\<close>, then
  \<^verbatim>\<open>setupNewMonacoEditor\<close>. It makes the appended run target: the same cell
  (same lock fields and options) with a new editor holding the empty text and new
  regions \<^verbatim>\<open>outputCodeDiv2\<close>, \<^verbatim>\<open>outputFeedbackDiv2\<close>,
  \<^verbatim>\<open>outputGraphDiv2\<close>. Its feedback region and its feedback button are appended
  whenever the flag holds; without the button, the assignment of the button's handler
  throws, after the handlers of the run, copy and reset buttons have been set.
  \<^verbatim>\<open>runCodeNE\<close> and the appended target's handlers are the text of
  \<^verbatim>\<open>runCode\<close> and of the first target's handlers with these fields in place of
  the first target's, so the functions below apply to either target.
\<close>

definition addCodeBlockButton_onclick :: "bool \<Rightarrow> 'v state \<Rightarrow> completion \<times> 'v state" where
  "addCodeBlockButton_onclick feedback s =
     (let s1 = s\<lparr>outputCodeDiv := \<lparr>innerHTML = [Pre True None], has_content = False\<rparr>,
                 outputFeedbackDiv :=
                   (if feedback then Some \<lparr>innerHTML = [], has_content = False\<rparr> else None),
                 outputGraphDiv := \<lparr>innerHTML = [], has_content = False\<rparr>,
                 run_buttons := run_buttons s @ [True]\<rparr>;
          s2 = qpyodideSetInteractiveButtonState True s1;
          s3 = s2\<lparr>editor := [], initialCode := []\<rparr>
      in (if feedback then Returned else Threw TypeError, s3))"

subsection \<open>The capture buffer\<close>

text \<open>
  Modelled from the spec: qpyodideResetOutputArray is called by the source and defined
  outside it. The spec has the capture buffer accumulate the ordered stream records of
  one run and has each run reset it at its start.
\<close>

definition qpyodideResetOutputArray :: "'v state \<Rightarrow> 'v state" where
  "qpyodideResetOutputArray s = s\<lparr>qpyodideOutput := []\<rparr>"

text \<open>
  Modelled from the spec: qpyodideAddToOutputArray is called by the source and defined
  outside it. The spec has the records ordered by emission: a record goes to the end of
  the buffer, with its stream tag.
\<close>

definition qpyodideAddToOutputArray :: "'v payload \<Rightarrow> stream \<Rightarrow> 'v state \<Rightarrow> 'v state" where
  "qpyodideAddToOutputArray m t s = s\<lparr>qpyodideOutput := qpyodideOutput s @ [(m, t)]\<rparr>"

text \<open>
  Modelled from the spec: qpyodideRetrieveOutput is called by the source and defined
  outside it. The spec has the buffer drained into one formatted block; the formatting
  is the parameter \<open>fmt\<close>. Retrieving the block leaves the records in the buffer
  until the next reset.
\<close>

definition qpyodideRetrieveOutput :: "('v entry list \<Rightarrow> jsstring) \<Rightarrow> 'v state \<Rightarrow> jsstring" where
  "qpyodideRetrieveOutput fmt s = fmt (qpyodideOutput s)"

text \<open>The sinks of \<^verbatim>\<open>qpyodideCustomizedPyodideOptions\<close>.\<close>

fun sink :: "written \<Rightarrow> 'v state \<Rightarrow> 'v state" where
  "sink (ToStdout text) s = qpyodideAddToOutputArray (Text text) Out s"
| "sink (ToStderr text) s = qpyodideAddToOutputArray (Text text) Error s"

text \<open>
  Drawing goes to the figure that is installed as the sink when the script draws,
  whichever run created that figure. With no sink installed the elements land outside
  the regions modelled here.
\<close>

definition draw :: "nat \<Rightarrow> 'v state \<Rightarrow> 'v state" where
  "draw k s =
     (case pyodideMplTarget s of
        None \<Rightarrow> s
      | Some g \<Rightarrow>
          s\<lparr>figures :=
               (figures s)[g := (figures s ! g)\<lparr>children := children (figures s ! g) + k\<rparr>]\<rparr>)"

definition interpreter_effects :: "'v settled \<Rightarrow> 'v state \<Rightarrow> 'v state" where
  "interpreter_effects r s = draw (drawn r) (fold sink (written r) s)"

subsection \<open>The run lock\<close>

definition disableInteractiveCells :: "'v state \<Rightarrow> 'v state" where
  "disableInteractiveCells s =
     s\<lparr>executionLock := True, run_buttons := map (\<lambda>_. True) (run_buttons s)\<rparr>"

definition enableInteractiveCells :: "'v state \<Rightarrow> 'v state" where
  "enableInteractiveCells s =
     s\<lparr>executionLock := False, run_buttons := map (\<lambda>_. False) (run_buttons s)\<rparr>"

subsection \<open>runCode and runCodeNE\<close>

text \<open>
  \<^verbatim>\<open>runCode\<close> is an \<^verbatim>\<open>async\<close> function: it runs until it comes to an
  \<^verbatim>\<open>await\<close>, is suspended there, and is resumed later; between its suspension and
  its resumption other handlers run, other runs among them. A suspended run is kept
  with its local variables: the source text \<^verbatim>\<open>code\<close> and, once created, the figure
  \<^verbatim>\<open>graphFigure\<close>.
  \<^item> \<open>AwaitingPyodide\<close>: suspended at \<^verbatim>\<open>await mainPyodide\<close>;
  \<^item> \<open>AwaitingLoad\<close>: \<^verbatim>\<open>loadPackagesFromImports\<close> called, suspended at its
    \<^verbatim>\<open>await\<close>;
  \<^item> \<open>AwaitingScript\<close>: \<^verbatim>\<open>runPythonAsync\<close> called, the script not yet executed;
  \<^item> \<open>AwaitingResult\<close>: the script executed and the call settled, the run not yet
    resumed;
  \<^item> \<open>Ended\<close>: the run ended, by returning or by throwing.
\<close>

datatype 'v activation =
    AwaitingPyodide jsstring
  | AwaitingLoad jsstring nat
  | AwaitingScript jsstring nat
  | AwaitingResult nat "js_error + 'v"
  | Ended completion

text \<open>The figure a suspended run holds in \<^verbatim>\<open>graphFigure\<close>, once it has one.\<close>

fun figure_of :: "'v activation \<Rightarrow> nat option" where
  "figure_of (AwaitingPyodide src) = None"
| "figure_of (AwaitingLoad src g) = Some g"
| "figure_of (AwaitingScript src g) = Some g"
| "figure_of (AwaitingResult g settled) = Some g"
| "figure_of (Ended c) = None"

text \<open>
  The synchronous start of \<^verbatim>\<open>runCode\<close>, up to the first \<^verbatim>\<open>await\<close>: the guard
  and \<^verbatim>\<open>disableInteractiveCells\<close>. \<open>None\<close> is the early return.
\<close>

definition runCode_enter :: "'v state \<Rightarrow> 'v state option" where
  "runCode_enter s =
     (if truthy_flag (executeLock s) then None else Some (disableInteractiveCells s))"

text \<open>
  After \<^verbatim>\<open>await mainPyodide\<close>: the buffer is reset, a fresh figure is created and
  installed as the sink. The result is the figure, kept in \<^verbatim>\<open>graphFigure\<close>, and
  the state.
\<close>

definition runCode_install :: "'v state \<Rightarrow> nat \<times> 'v state" where
  "runCode_install s =
     (let s1 = qpyodideResetOutputArray s;
          graphFigure = length (figures s1);
          s2 = s1\<lparr>figures := figures s1 @ [\<lparr>children = 0, figcaption = None\<rparr>]\<rparr>
      in (graphFigure, s2\<lparr>pyodideMplTarget := Some graphFigure\<rparr>))"

definition render_output :: "jsstring \<Rightarrow> 'v state \<Rightarrow> 'v state" where
  "render_output result s =
     (let s1 = s\<lparr>outputCodeDiv := (outputCodeDiv s)\<lparr>innerHTML := []\<rparr>,
                 outputGraphDiv := (outputGraphDiv s)\<lparr>innerHTML := []\<rparr>\<rparr>;
          s2 = (if has_non_whitespace result
                then s1\<lparr>outputCodeDiv := (outputCodeDiv s1)\<lparr>has_content := True\<rparr>\<rparr>
                else s1\<lparr>outputCodeDiv := (outputCodeDiv s1)\<lparr>has_content := False\<rparr>\<rparr>);
          pre = (if has_non_whitespace result then Pre False (Some result) else Pre True None)
      in s2\<lparr>outputCodeDiv :=
              (outputCodeDiv s2)\<lparr>innerHTML := innerHTML (outputCodeDiv s2) @ [pre]\<rparr>\<rparr>)"

text \<open>
  The test is made on the run's own figure \<^verbatim>\<open>graphFigure\<close>, not on the installed
  sink.
\<close>

definition place_graphics :: "nat \<Rightarrow> 'v state \<Rightarrow> 'v state" where
  "place_graphics graphFigure s =
     (if children (figures s ! graphFigure) > 0
      then
        (let s1 = (if truthy_text (fig_cap (options s))
                   then s\<lparr>figures :=
                          (figures s)[graphFigure :=
                            (figures s ! graphFigure)\<lparr>figcaption := fig_cap (options s)\<rparr>]\<rparr>
                   else s)
         in s1\<lparr>outputGraphDiv :=
                \<lparr>innerHTML = innerHTML (outputGraphDiv s1) @ [Figure graphFigure],
                 has_content = True\<rparr>\<rparr>)
      else s\<lparr>outputGraphDiv := (outputGraphDiv s)\<lparr>has_content := False\<rparr>\<rparr>)"

text \<open>
  The end of \<^verbatim>\<open>runCode\<close>, from \<^verbatim>\<open>qpyodideRetrieveOutput\<close> to
  \<^verbatim>\<open>enableInteractiveCells\<close>: no \<^verbatim>\<open>await\<close> stands between these statements.
\<close>

definition runCode_finish :: "('v entry list \<Rightarrow> jsstring) \<Rightarrow> nat \<Rightarrow> 'v state \<Rightarrow> 'v state" where
  "runCode_finish fmt graphFigure s =
     (let result = qpyodideRetrieveOutput fmt s;
          s1 = render_output result s;
          s2 = place_graphics graphFigure s1
      in enableInteractiveCells s2)"

text \<open>
  One resumption of a suspended run: the statements from one \<^verbatim>\<open>await\<close> to the
  next, or to the end. A rejection of \<^verbatim>\<open>loadPackagesFromImports\<close> goes to the
  \<^verbatim>\<open>catch\<close> and from there to the end, past the call of \<^verbatim>\<open>runPythonAsync\<close>.
  A throw of \<^verbatim>\<open>await mainPyodide\<close> ends the run where it stands.
\<close>

fun resume ::
  "'v interpreter \<Rightarrow> ('v entry list \<Rightarrow> jsstring) \<Rightarrow> 'v activation \<Rightarrow> 'v state
     \<Rightarrow> 'v activation \<times> 'v state"
where
  "resume py fmt (AwaitingPyodide src) s =
     (case mainPyodide py of
        Some m \<Rightarrow> (Ended (Threw (Rejected m)), s)
      | None \<Rightarrow>
          (let (graphFigure, s1) = runCode_install s
           in (AwaitingLoad src graphFigure,
               s1\<lparr>interpreter_calls := interpreter_calls s1 @ [LoadPackages src]\<rparr>)))"
| "resume py fmt (AwaitingLoad src graphFigure) s =
     (case loadPackagesFromImports py src of
        Some err \<Rightarrow>
          (Ended Returned,
           runCode_finish fmt graphFigure (qpyodideAddToOutputArray (Caught err) Stderr s))
      | None \<Rightarrow>
          (AwaitingScript src graphFigure,
           s\<lparr>interpreter_calls := interpreter_calls s @ [RunPython src]\<rparr>))"
| "resume py fmt (AwaitingScript src graphFigure) s =
     (let r = runPythonAsync py src
      in (AwaitingResult graphFigure (outcome r), interpreter_effects r s))"
| "resume py fmt (AwaitingResult graphFigure settled) s =
     (Ended Returned,
      runCode_finish fmt graphFigure
        (case settled of
           Inl err \<Rightarrow> qpyodideAddToOutputArray (Caught err) Stderr s
         | Inr output \<Rightarrow> qpyodideAddToOutputArray (Value output) Stdout s))"
| "resume py fmt (Ended c) s = (Ended c, s)"

text \<open>
  The handlers that call \<^verbatim>\<open>runCode\<close> (the click handler of the run button, the
  Shift+Enter and Ctrl+Enter commands) do not await it: the call comes back at the first
  \<^verbatim>\<open>await\<close>, or at the guard, and the handler then marks the output region.
\<close>

definition mark_output :: "'v state \<Rightarrow> 'v state" where
  "mark_output s = s\<lparr>outputCodeDiv := (outputCodeDiv s)\<lparr>has_content := True\<rparr>\<rparr>"

text \<open>
  The page with its suspended runs. A trigger is one of these handlers, on the source
  text it takes from the editor; any suspended run may be resumed next. A schedule is a
  sequence of such events.
\<close>

datatype event = Trigger jsstring | Resume nat

fun perform ::
  "'v interpreter \<Rightarrow> ('v entry list \<Rightarrow> jsstring) \<Rightarrow> event
     \<Rightarrow> 'v activation list \<times> 'v state \<Rightarrow> 'v activation list \<times> 'v state"
where
  "perform py fmt (Trigger src) (runs, s) =
     (case runCode_enter s of
        None \<Rightarrow> (runs, mark_output s)
      | Some s1 \<Rightarrow> (runs @ [AwaitingPyodide src], mark_output s1))"
| "perform py fmt (Resume i) (runs, s) =
     (if i < length runs
      then (let (a, s1) = resume py fmt (runs ! i) s in (runs[i := a], s1))
      else (runs, s))"

definition schedule ::
  "'v interpreter \<Rightarrow> ('v entry list \<Rightarrow> jsstring) \<Rightarrow> event list
     \<Rightarrow> 'v activation list \<times> 'v state \<Rightarrow> 'v activation list \<times> 'v state"
where
  "schedule py fmt events page = fold (perform py fmt) events page"

text \<open>
  A run that no other handler interleaves with: the resumptions of one run, one after
  the other, to its end. \<^verbatim>\<open>runCode\<close> below is such a run from its trigger on.
\<close>

fun stage :: "'v activation \<Rightarrow> nat" where
  "stage (AwaitingPyodide src) = 0"
| "stage (AwaitingLoad src g) = 1"
| "stage (AwaitingScript src g) = 2"
| "stage (AwaitingResult g settled) = 3"
| "stage (Ended c) = 4"

function run_alone ::
  "'v interpreter \<Rightarrow> ('v entry list \<Rightarrow> jsstring) \<Rightarrow> 'v activation \<Rightarrow> 'v state
     \<Rightarrow> completion \<times> 'v state"
where
  "run_alone py fmt (Ended c) s = (c, s)"
| "run_alone py fmt (AwaitingPyodide src) s =
     (case resume py fmt (AwaitingPyodide src) s of (a, s1) \<Rightarrow> run_alone py fmt a s1)"
| "run_alone py fmt (AwaitingLoad src g) s =
     (case resume py fmt (AwaitingLoad src g) s of (a, s1) \<Rightarrow> run_alone py fmt a s1)"
| "run_alone py fmt (AwaitingScript src g) s =
     (case resume py fmt (AwaitingScript src g) s of (a, s1) \<Rightarrow> run_alone py fmt a s1)"
| "run_alone py fmt (AwaitingResult g settled) s =
     (case resume py fmt (AwaitingResult g settled) s of (a, s1) \<Rightarrow> run_alone py fmt a s1)"
  by pat_completeness auto
termination
proof (relation "measure (\<lambda>(py, fmt, a, s). 4 - stage a)")
  show "wf (measure (\<lambda>(py, fmt, a, s). 4 - stage a))"
    by simp
qed (auto simp: Let_def split: option.splits prod.splits)

definition runCode_body ::
  "'v interpreter \<Rightarrow> ('v entry list \<Rightarrow> jsstring) \<Rightarrow> jsstring \<Rightarrow> 'v state \<Rightarrow> completion \<times> 'v state"
where
  "runCode_body py fmt src s = run_alone py fmt (AwaitingPyodide src) s"

definition runCode ::
  "'v interpreter \<Rightarrow> ('v entry list \<Rightarrow> jsstring) \<Rightarrow> jsstring \<Rightarrow> 'v state \<Rightarrow> completion \<times> 'v state"
where
  "runCode py fmt src s =
     (case runCode_enter s of
        None \<Rightarrow> (Returned, s)
      | Some s1 \<Rightarrow> runCode_body py fmt src s1)"

definition runCodeNE ::
  "'v interpreter \<Rightarrow> ('v entry list \<Rightarrow> jsstring) \<Rightarrow> jsstring \<Rightarrow> 'v state \<Rightarrow> completion \<times> 'v state"
where
  "runCodeNE = runCode"

text \<open>
  The click handler of the run button, with the run it starts taken to its end with
  nothing in between.
\<close>

definition runButton_onclick ::
  "'v interpreter \<Rightarrow> ('v entry list \<Rightarrow> jsstring) \<Rightarrow> 'v state \<Rightarrow> completion \<times> 'v state"
where
  "runButton_onclick py fmt s =
     (case runCode_enter s of
        None \<Rightarrow> (Returned, mark_output s)
      | Some s1 \<Rightarrow> runCode_body py fmt (editor s) (mark_output s1))"

text \<open>
  The \<^verbatim>\<open>try\<close>/\<^verbatim>\<open>catch\<close> block around the two awaited interpreter calls, taken
  in one piece. The fresh run of the feedback handler uses it in this form: what is
  proved of the feedback handler (its alerts, its requests, the feedback region) is not
  touched by what a run in between could write.
\<close>

definition obtain_results :: "'v interpreter \<Rightarrow> jsstring \<Rightarrow> 'v state \<Rightarrow> 'v state" where
  "obtain_results py src s =
     (let s1 = s\<lparr>interpreter_calls := interpreter_calls s @ [LoadPackages src]\<rparr>
      in case loadPackagesFromImports py src of
           Some err \<Rightarrow> qpyodideAddToOutputArray (Caught err) Stderr s1
         | None \<Rightarrow>
             (let r = runPythonAsync py src;
                  s2 = interpreter_effects r
                         (s1\<lparr>interpreter_calls := interpreter_calls s1 @ [RunPython src]\<rparr>)
              in case outcome r of
                   Inl err \<Rightarrow> qpyodideAddToOutputArray (Caught err) Stderr s2
                 | Inr output \<Rightarrow> qpyodideAddToOutputArray (Value output) Stdout s2))"

subsection \<open>Reset\<close>

text \<open>
  The click handler of the reset button. Reading \<^verbatim>\<open>classList\<close> of a feedback
  region that is \<^verbatim>\<open>null\<close> throws, after the editor's text has been set.
\<close>

definition resetButton_onclick :: "'v state \<Rightarrow> completion \<times> 'v state" where
  "resetButton_onclick s =
     (let s1 = s\<lparr>editor := initialCode s\<rparr>
      in case outputFeedbackDiv s1 of
           None \<Rightarrow> (Threw TypeError, s1)
         | Some fb \<Rightarrow>
             (let s2 = (if has_content fb
                        then s1\<lparr>outputFeedbackDiv := Some (fb\<lparr>innerHTML := []\<rparr>)\<rparr>
                        else s1);
                  s3 = (if has_content (outputCodeDiv s2)
                        then s2\<lparr>outputCodeDiv := (outputCodeDiv s2)\<lparr>innerHTML := []\<rparr>\<rparr>
                        else s2);
                  s4 = (if has_content (outputGraphDiv s3)
                        then s3\<lparr>outputGraphDiv := (outputGraphDiv s3)\<lparr>innerHTML := []\<rparr>\<rparr>
                        else s3)
              in (Returned, s4)))"

section \<open>The feedback pipeline\<close>

text \<open>
  \<^verbatim>\<open>globalThis.backend\<close> and the values of the two input fields of the page.
\<close>

record settings =
  backend :: jsstring
  baseUrlInput :: jsstring
  apiKeyInput :: jsstring

datatype target = First | Appended

definition system_prompt :: jsstring where
  "system_prompt =
     js ''You are an AI Assistant, specialized in coding issues. You give concise answers, without asking further questions.''"

definition prompt1 :: jsstring where
  "prompt1 =
     js ''Review the following Python code for errors and provide feedback. The code output, including any syntax errors, will be provided for detailed analysis. This is the source code of the user:''
     @ [0xA]"

definition prompt2 :: jsstring where
  "prompt2 =
     js ''Your feedback should highlight both the strengths of the code and any potential errors, providing explanations where necessary. While you may offer tips for improvement, avoid providing exact code solutions. Focus on guiding the user towards better practices and understanding. Structure the feedback like this: Syntax errors: ''
     @ [0xA] @ js '' Strengths of the code: '' @ [0xA] @ js '' Potential improvements:''
     @ [0xA] @ js '' ''"

definition runtime_prompt :: jsstring where
  "runtime_prompt = [0xA] @ js ''Here is the output of the python interpreter:'' @ [0xA]"

definition exchange :: "jsstring \<Rightarrow> jsstring \<Rightarrow> (jsstring \<times> jsstring) list" where
  "exchange runtime_message data =
     [(js ''system'', system_prompt),
      (js ''user'', runtime_prompt @ runtime_message @ prompt1 @ data @ prompt2)]"

definition window_alert :: "jsstring \<Rightarrow> js_error option \<Rightarrow> 'v state \<Rightarrow> 'v state" where
  "window_alert text err s = s\<lparr>alerts := alerts s @ [Alert text err]\<rparr>"

definition fetch :: "request \<Rightarrow> 'v state \<Rightarrow> 'v state" where
  "fetch req s = s\<lparr>requests := requests s @ [req]\<rparr>"

text \<open>
  The fresh run at the start of the feedback handler: its outer \<^verbatim>\<open>try\<close> block.
  \<open>None\<close> is the \<^verbatim>\<open>return\<close> of the guard, which leaves the handler; otherwise
  the result is \<^verbatim>\<open>runtime_message\<close> and the state. A rejection of
  \<^verbatim>\<open>mainPyodide\<close> reaches the outer \<^verbatim>\<open>catch\<close>, past
  \<^verbatim>\<open>enableInteractiveCells\<close>. No graphic sink is installed and no region is
  rendered here.
\<close>

definition feedback_run ::
  "'v interpreter \<Rightarrow> ('v entry list \<Rightarrow> jsstring) \<Rightarrow> jsstring \<Rightarrow> 'v state
     \<Rightarrow> (jsstring \<times> 'v state) option"
where
  "feedback_run py fmt data s =
     (if truthy_flag (executeLock s) then None
      else
        (let s1 = disableInteractiveCells s
         in case mainPyodide py of
              Some m \<Rightarrow> Some (js ''Error: '' @ m, s1)
            | None \<Rightarrow>
                (let s2 = qpyodideResetOutputArray s1;
                     s3 = obtain_results py data s2;
                     runtime_message = qpyodideRetrieveOutput fmt s3
                 in Some (runtime_message, enableInteractiveCells s3))))"

text \<open>\<^verbatim>\<open>data.choices[0].message.content\<close>; reading a property of \<^verbatim>\<open>null\<close> or
  \<^verbatim>\<open>undefined\<close> throws.\<close>

fun get_feedback :: "reply \<Rightarrow> js_error + jsstring option" where
  "get_feedback Null = Inl TypeError"
| "get_feedback (Object None) = Inl TypeError"
| "get_feedback (Object (Some [])) = Inl TypeError"
| "get_feedback (Object (Some (Choice None # _))) = Inl TypeError"
| "get_feedback (Object (Some (Choice (Some (Message c)) # _))) = Inr c"

definition replaceNewlinesWithBr :: "jsstring \<Rightarrow> jsstring" where
  "replaceNewlinesWithBr text = concat (map (\<lambda>c. if c = 0xA then js ''<br>'' else [c]) text)"

text \<open>
  The rendering of a reply, shared by the two backends: clear the region, read the
  reply's text, append the label, append the text. The first component is the error
  thrown on the way, if any; \<^verbatim>\<open>feedback.replace\<close> throws on an absent
  \<^verbatim>\<open>content\<close>, after the label has been appended.
\<close>

definition render_feedback :: "reply \<Rightarrow> 'v state \<Rightarrow> js_error option \<times> 'v state" where
  "render_feedback data s =
     (case outputFeedbackDiv s of
        None \<Rightarrow> (Some TypeError, s)
      | Some fb \<Rightarrow>
          (let s1 = s\<lparr>outputFeedbackDiv := Some (fb\<lparr>innerHTML := []\<rparr>)\<rparr>
           in case get_feedback data of
                Inl e \<Rightarrow> (Some e, s1)
              | Inr feedback \<Rightarrow>
                  (let s2 = s1\<lparr>outputFeedbackDiv := Some (fb\<lparr>innerHTML := [FeedbackLabel]\<rparr>)\<rparr>
                   in case feedback of
                        None \<Rightarrow> (Some TypeError, s2)
                      | Some text \<Rightarrow>
                          (None,
                           s2\<lparr>outputFeedbackDiv :=
                                Some (fb\<lparr>innerHTML :=
                                  [FeedbackLabel, FeedbackText (replaceNewlinesWithBr text)]\<rparr>)\<rparr>))))"

definition select_model :: "jsstring list \<Rightarrow> jsstring option" where
  "select_model modelIds =
     (if js ''mixtral-8x7b-32768'' \<in> set modelIds then Some (js ''mixtral-8x7b-32768'')
      else (case modelIds of [] \<Rightarrow> None | m # _ \<Rightarrow> Some m))"

definition api_error_prefix :: "target \<Rightarrow> jsstring" where
  "api_error_prefix t =
     (case t of First \<Rightarrow> js ''Error requesting the API: ''
              | Appended \<Rightarrow> js ''Error when requesting the API: '')"

text \<open>
  The callbacks of the remote-model backend, run when the model listing settles: the
  inner \<^verbatim>\<open>catch\<close> handles the POST and the rendering, the outer one the listing.
\<close>

definition groq_settle ::
  "target \<Rightarrow> network \<Rightarrow> settings \<Rightarrow> (jsstring \<times> jsstring) list \<Rightarrow> 'v state \<Rightarrow> 'v state"
where
  "groq_settle t net cfg msgs s =
     (case models_reply net of
        Failed e \<Rightarrow> window_alert (js ''Error when retrieving the model list: '') (Some e) s
      | Json None \<Rightarrow>
          window_alert (js ''Error when retrieving the model list: '') (Some TypeError) s
      | Json (Some modelIds) \<Rightarrow>
          (let requestData = \<lparr>messages = msgs, model = select_model modelIds\<rparr>;
               s1 = fetch (Post (baseUrlInput cfg @ js ''/chat/completions'')
                             (Some (apiKeyInput cfg)) requestData) s
           in case feedback_reply net of
                Failed e \<Rightarrow> window_alert (api_error_prefix t) (Some e) s1
              | Json data \<Rightarrow>
                  (case render_feedback data s1 of
                     (None, s2) \<Rightarrow> s2
                   | (Some e, s2) \<Rightarrow> window_alert (api_error_prefix t) (Some e) s2)))"

text \<open>\<^verbatim>\<open>data && data.choices && data.choices.length > 0\<close>\<close>

fun has_choices :: "reply \<Rightarrow> bool" where
  "has_choices Null = False"
| "has_choices (Object None) = False"
| "has_choices (Object (Some cs)) = (length cs > 0)"

definition choices_missing :: jsstring where
  "choices_missing =
     js ''Error when retrieving feedback: '' @ [0x27] @ js ''choices'' @ [0x27]
     @ js '' field not available or empty.''"

definition flask_settle :: "network \<Rightarrow> 'v state \<Rightarrow> 'v state" where
  "flask_settle net s =
     (case feedback_reply net of
        Failed e \<Rightarrow> window_alert (js ''Error when requesting the API:  '') (Some e) s
      | Json data \<Rightarrow>
          (if has_choices data
           then (case render_feedback data s of
                   (None, s2) \<Rightarrow> s2
                 | (Some e, s2) \<Rightarrow>
                     window_alert (js ''Error when requesting the API:  '') (Some e) s2)
           else window_alert choices_missing None s))"

text \<open>
  The click handler of the feedback button. Its synchronous part runs first: the fresh
  run, the credential check, the start of the requests and the mark on the feedback
  region; the callbacks of the requests run afterwards. The result is the completion of
  the handler and the state once the requests have settled.
\<close>

definition feedbackButton_onclick ::
  "target \<Rightarrow> 'v interpreter \<Rightarrow> ('v entry list \<Rightarrow> jsstring) \<Rightarrow> settings \<Rightarrow> network
     \<Rightarrow> 'v state \<Rightarrow> completion \<times> 'v state"
where
  "feedbackButton_onclick t py fmt cfg net s =
     (let data = editor s
      in case feedback_run py fmt data s of
           None \<Rightarrow> (Returned, s)
         | Some (runtime_message, s1) \<Rightarrow>
             (let msgs = exchange runtime_message data
              in if backend cfg = js ''groq'' \<and> apiKeyInput cfg = []
                 then (Returned, window_alert (js ''Please enter your API Key.'') None s1)
                 else
                   (let s2 = (if backend cfg = js ''groq''
                              then fetch (Get (baseUrlInput cfg @ js ''/models'')
                                            (apiKeyInput cfg)) s1
                              else s1);
                        s3 = (if backend cfg = js ''flask''
                              then fetch (Post (js ''http://127.0.0.1:5000/api/feedback'') None
                                            \<lparr>messages = msgs, model = None\<rparr>) s2
                              else s2);
                        settle = (\<lambda>u.
                          let u1 = (if backend cfg = js ''groq''
                                    then groq_settle t net cfg msgs u else u)
                          in if backend cfg = js ''flask'' then flask_settle net u1 else u1)
                    in case outputFeedbackDiv s3 of
                         None \<Rightarrow> (Threw TypeError, settle s3)
                       | Some fb \<Rightarrow>
                           (Returned,
                            settle (s3\<lparr>outputFeedbackDiv :=
                                         Some (fb\<lparr>has_content := True\<rparr>)\<rparr>)))))"

section \<open>Inputs of the examples\<close>

text \<open>
  A cell whose option \<^verbatim>\<open>read-only\<close> is \<^verbatim>\<open>"false"\<close>, with a figure caption, built
  on a page with no other run button: once with \<^verbatim>\<open>globalThis.feedback\<close> as the
  document settings leave it (\<^verbatim>\<open>false\<close>), once with the flag set.
\<close>

definition example_data :: cellData where
  "example_data =
     \<lparr>cd_code = js ''print(1+1)'',
      cd_options = \<lparr>read_only = Some (js ''false''), fig_cap = Some (js ''A plot'')\<rparr>\<rparr>"

definition default_cell :: "unit state" where
  "default_cell = InteractiveCell False [] example_data"

definition feedback_cell :: "unit state" where
  "feedback_cell = InteractiveCell True [] example_data"

text \<open>A formatting of the buffer: the texts of the sinks, and a word for a caught error.\<close>

definition example_format :: "unit entry list \<Rightarrow> jsstring" where
  "example_format entries =
     concat (map (\<lambda>e. case fst e of Text t \<Rightarrow> t | Value v \<Rightarrow> [] | Caught err \<Rightarrow> js ''Error'')
       entries)"

text \<open>
  Four interpreters: one that prints \<^verbatim>\<open>2\<close> and draws one element; one whose run raises;
  one whose dependency loading fails; one whose start-up promise rejects.
\<close>

definition printing :: "unit interpreter" where
  "printing =
     \<lparr>mainPyodide = None, loadPackagesFromImports = (\<lambda>src. None),
      runPythonAsync = (\<lambda>src. \<lparr>written = [ToStdout (js ''2'')], drawn = 1, outcome = Inr ()\<rparr>)\<rparr>"

definition raising :: "unit interpreter" where
  "raising =
     \<lparr>mainPyodide = None, loadPackagesFromImports = (\<lambda>src. None),
      runPythonAsync = (\<lambda>src. \<lparr>written = [], drawn = 0,
                                 outcome = Inl (Rejected (js ''ZeroDivisionError''))\<rparr>)\<rparr>"

definition load_failing :: "unit interpreter" where
  "load_failing =
     \<lparr>mainPyodide = None,
      loadPackagesFromImports = (\<lambda>src. Some (Rejected (js ''Failed to fetch''))),
      runPythonAsync = (\<lambda>src. \<lparr>written = [ToStdout (js ''2'')], drawn = 1, outcome = Inr ()\<rparr>)\<rparr>"

definition not_starting :: "unit interpreter" where
  "not_starting =
     \<lparr>mainPyodide = Some (js ''Failed to fetch''), loadPackagesFromImports = (\<lambda>src. None),
      runPythonAsync = (\<lambda>src. \<lparr>written = [ToStdout (js ''2'')], drawn = 1, outcome = Inr ()\<rparr>)\<rparr>"


definition load_pending :: "unit activation list \<times> unit state" where
  "load_pending =
     schedule load_failing example_format
       [Trigger (js ''import numpy''), Resume 0] ([], default_cell)"

text \<open>Settings of the two backends, and three networks.\<close>

definition flask_settings :: settings where
  "flask_settings = \<lparr>backend = js ''flask'', baseUrlInput = [], apiKeyInput = []\<rparr>"

definition groq_settings :: settings where
  "groq_settings =
     \<lparr>backend = js ''groq'', baseUrlInput = js ''https://api.groq.com/openai/v1'',
      apiKeyInput = js ''gsk''\<rparr>"

definition replying :: network where
  "replying =
     \<lparr>models_reply = Json (Some [js ''llama3-8b-8192'', js ''gemma-7b-it'']),
      feedback_reply = Json (Object (Some [Choice (Some (Message (Some (js ''Fine.''))))]))\<rparr>"

definition without_choices :: network where
  "without_choices =
     \<lparr>models_reply = Json (Some [js ''llama3-8b-8192'', js ''gemma-7b-it'']),
      feedback_reply = Json (Object None)\<rparr>"

definition unreachable :: network where
  "unreachable =
     \<lparr>models_reply = Failed (Rejected (js ''Failed to fetch'')),
      feedback_reply = Failed (Rejected (js ''Failed to fetch''))\<rparr>"

section \<open>Properties\<close>

subsection \<open>Closed forms of the steps of a run\<close>

lemma fold_sink:
  "fold sink ws s =
     s\<lparr>qpyodideOutput := qpyodideOutput s @
          map (\<lambda>w. case w of ToStdout t \<Rightarrow> (Text t, Out) | ToStderr t \<Rightarrow> (Text t, Error)) ws\<rparr>"
proof (induction ws arbitrary: s)
  case Nil
  show ?case by simp
next
  case (Cons w ws)
  show ?case
    by (cases w) (simp_all add: Cons.IH qpyodideAddToOutputArray_def)
qed

lemma interpreter_effects_eq:
  "interpreter_effects r s =
     s\<lparr>qpyodideOutput := qpyodideOutput s @
          map (\<lambda>w. case w of ToStdout t \<Rightarrow> (Text t, Out) | ToStderr t \<Rightarrow> (Text t, Error))
            (written r),
        figures := figures (draw (drawn r) s)\<rparr>"
  by (simp add: interpreter_effects_def fold_sink draw_def split: option.split)

lemma obtain_results_eq:
  "obtain_results py src s =
     s\<lparr>interpreter_calls := interpreter_calls s @
          (case loadPackagesFromImports py src of
             Some err \<Rightarrow> [LoadPackages src] | None \<Rightarrow> [LoadPackages src, RunPython src]),
        qpyodideOutput := qpyodideOutput s @
          (case loadPackagesFromImports py src of
             Some err \<Rightarrow> [(Caught err, Stderr)]
           | None \<Rightarrow>
               map (\<lambda>w. case w of ToStdout t \<Rightarrow> (Text t, Out) | ToStderr t \<Rightarrow> (Text t, Error))
                 (written (runPythonAsync py src)) @
               [case outcome (runPythonAsync py src) of
                  Inl err \<Rightarrow> (Caught err, Stderr) | Inr output \<Rightarrow> (Value output, Stdout)]),
        figures :=
          (case loadPackagesFromImports py src of
             Some err \<Rightarrow> figures s
           | None \<Rightarrow> figures (draw (drawn (runPythonAsync py src)) s))\<rparr>"
  by (simp add: obtain_results_def interpreter_effects_eq qpyodideAddToOutputArray_def
      draw_def Let_def split: option.splits sum.splits)

lemma render_output_eq:
  "render_output result s =
     s\<lparr>outputCodeDiv :=
          (if has_non_whitespace result
           then \<lparr>innerHTML = [Pre False (Some result)], has_content = True\<rparr>
           else \<lparr>innerHTML = [Pre True None], has_content = False\<rparr>),
        outputGraphDiv := (outputGraphDiv s)\<lparr>innerHTML := []\<rparr>\<rparr>"
  by (simp add: render_output_def Let_def)

lemma place_graphics_eq:
  "place_graphics g s =
     s\<lparr>outputGraphDiv :=
          (if children (figures s ! g) > 0
           then \<lparr>innerHTML = innerHTML (outputGraphDiv s) @ [Figure g], has_content = True\<rparr>
           else (outputGraphDiv s)\<lparr>has_content := False\<rparr>),
        figures :=
          (if children (figures s ! g) > 0 \<and> truthy_text (fig_cap (options s))
           then (figures s)[g := (figures s ! g)\<lparr>figcaption := fig_cap (options s)\<rparr>]
           else figures s)\<rparr>"
  by (simp add: place_graphics_def Let_def)

text \<open>
  The end of a run, whatever the state it is resumed in: the output region is replaced by
  the drained block, the graphic region by the run's own figure if that figure holds
  elements, and the lock is released.
\<close>

lemma runCode_finish_eq:
  "runCode_finish fmt g s =
     s\<lparr>outputCodeDiv :=
          (if has_non_whitespace (fmt (qpyodideOutput s))
           then \<lparr>innerHTML = [Pre False (Some (fmt (qpyodideOutput s)))], has_content = True\<rparr>
           else \<lparr>innerHTML = [Pre True None], has_content = False\<rparr>),
        outputGraphDiv :=
          (if children (figures s ! g) > 0
           then \<lparr>innerHTML = [Figure g], has_content = True\<rparr>
           else \<lparr>innerHTML = [], has_content = False\<rparr>),
        figures :=
          (if children (figures s ! g) > 0 \<and> truthy_text (fig_cap (options s))
           then (figures s)[g := (figures s ! g)\<lparr>figcaption := fig_cap (options s)\<rparr>]
           else figures s),
        executionLock := False,
        run_buttons := map (\<lambda>_. False) (run_buttons s)\<rparr>"
  by (simp add: runCode_finish_def render_output_eq place_graphics_eq
      enableInteractiveCells_def qpyodideRetrieveOutput_def Let_def)

text \<open>
  A run that nothing interleaves with is the fresh sink, the \<^verbatim>\<open>try\<close> block and the
  end, one after the other.
\<close>

lemma run_alone_eq:
  assumes "mainPyodide py = None"
  shows "run_alone py fmt (AwaitingPyodide src) s =
     (Returned,
      runCode_finish fmt (length (figures s))
        (obtain_results py src
           (s\<lparr>qpyodideOutput := [],
              figures := figures s @ [\<lparr>children = 0, figcaption = None\<rparr>],
              pyodideMplTarget := Some (length (figures s))\<rparr>)))"
  using assms
  by (cases "loadPackagesFromImports py src"; cases "outcome (runPythonAsync py src)")
    (simp_all add: runCode_install_def qpyodideResetOutputArray_def Let_def obtain_results_def)

text \<open>
  The guard reads a property that is undefined, so it lets every trigger through,
  whatever the value of \<open>executionLock\<close>.
\<close>

lemma runCode_enter_undefined_guard:
  "executeLock s = None \<Longrightarrow> runCode_enter s = Some (disableInteractiveCells s)"
  by (simp add: runCode_enter_def truthy_flag_def)

lemma runCode_eq:
  assumes "executeLock s = None" and "mainPyodide py = None"
  shows "runCode py fmt src s =
     (Returned,
      runCode_finish fmt (length (figures s))
        (obtain_results py src
           (disableInteractiveCells s
              \<lparr>qpyodideOutput := [],
               figures := figures s @ [\<lparr>children = 0, figcaption = None\<rparr>],
               pyodideMplTarget := Some (length (figures s))\<rparr>)))"
proof -
  have "runCode py fmt src s
          = run_alone py fmt (AwaitingPyodide src) (disableInteractiveCells s)"
    using assms(1)
    by (simp add: runCode_def runCode_body_def runCode_enter_undefined_guard
        del: run_alone.simps)
  then show ?thesis
    by (simp add: run_alone_eq [OF assms(2)] disableInteractiveCells_def
        del: run_alone.simps)
qed

lemma runCode_pending:
  assumes "executeLock s = None" and "mainPyodide py = Some m"
  shows "runCode py fmt src s = (Threw (Rejected m), disableInteractiveCells s)"
  using assms
  by (simp add: runCode_def runCode_body_def runCode_enter_undefined_guard)

lemma runCode_buffer:
  assumes "executeLock s = None" and "mainPyodide py = None"
  shows "qpyodideOutput (snd (runCode py fmt src s)) =
          (case loadPackagesFromImports py src of
             Some err \<Rightarrow> [(Caught err, Stderr)]
           | None \<Rightarrow>
               map (\<lambda>w. case w of ToStdout t \<Rightarrow> (Text t, Out) | ToStderr t \<Rightarrow> (Text t, Error))
                 (written (runPythonAsync py src)) @
               [case outcome (runPythonAsync py src) of
                  Inl err \<Rightarrow> (Caught err, Stderr) | Inr output \<Rightarrow> (Value output, Stdout)])"
  by (simp add: runCode_eq [OF assms] runCode_finish_eq obtain_results_eq
      disableInteractiveCells_def)

text \<open>
  No step assigns \<open>executeLock\<close>, and no step creates or removes the feedback
  region: both are as the constructor left them after any resumption and any run.
\<close>

lemma resume_frame:
  "executeLock (snd (resume py fmt a s)) = executeLock s
   \<and> outputFeedbackDiv (snd (resume py fmt a s)) = outputFeedbackDiv s
   \<and> initialCode (snd (resume py fmt a s)) = initialCode s"
  by (cases a)
    (simp_all add: runCode_install_def qpyodideResetOutputArray_def Let_def runCode_finish_eq
      qpyodideAddToOutputArray_def interpreter_effects_eq split: option.split sum.split)

lemma run_alone_frame:
  "executeLock (snd (run_alone py fmt a s)) = executeLock s
   \<and> outputFeedbackDiv (snd (run_alone py fmt a s)) = outputFeedbackDiv s
   \<and> initialCode (snd (run_alone py fmt a s)) = initialCode s"
proof (induction py fmt a s rule: run_alone.induct)
  case (1 py fmt c s)
  show ?case by simp
next
  case (2 py fmt src s)
  obtain a s1 where r: "resume py fmt (AwaitingPyodide src) s = (a, s1)"
    by (cases "resume py fmt (AwaitingPyodide src) s")
  from "2" r resume_frame [of py fmt "AwaitingPyodide src" s]
  show ?case by (auto simp del: resume.simps)
next
  case (3 py fmt src g s)
  obtain a s1 where r: "resume py fmt (AwaitingLoad src g) s = (a, s1)"
    by (cases "resume py fmt (AwaitingLoad src g) s")
  from "3" r resume_frame [of py fmt "AwaitingLoad src g" s]
  show ?case by (auto simp del: resume.simps)
next
  case (4 py fmt src g s)
  obtain a s1 where r: "resume py fmt (AwaitingScript src g) s = (a, s1)"
    by (cases "resume py fmt (AwaitingScript src g) s")
  from "4" r resume_frame [of py fmt "AwaitingScript src g" s]
  show ?case by (auto simp del: resume.simps)
next
  case (5 py fmt g settled s)
  obtain a s1 where r: "resume py fmt (AwaitingResult g settled) s = (a, s1)"
    by (cases "resume py fmt (AwaitingResult g settled) s")
  from "5" r resume_frame [of py fmt "AwaitingResult g settled" s]
  show ?case by (auto simp del: resume.simps)
qed

lemma runCode_frame:
  "executeLock (snd (runCode py fmt src s)) = executeLock s
   \<and> outputFeedbackDiv (snd (runCode py fmt src s)) = outputFeedbackDiv s
   \<and> initialCode (snd (runCode py fmt src s)) = initialCode s"
proof (cases "runCode_enter s")
  case None
  then show ?thesis by (simp add: runCode_def)
next
  case (Some s1)
  then have "s1 = disableInteractiveCells s"
    by (simp add: runCode_enter_def split: if_splits)
  then have "executeLock s1 = executeLock s" "outputFeedbackDiv s1 = outputFeedbackDiv s"
    "initialCode s1 = initialCode s"
    by (simp_all add: disableInteractiveCells_def)
  with Some run_alone_frame [of py fmt "AwaitingPyodide src" s1] show ?thesis
    by (simp add: runCode_def runCode_body_def)
qed

lemma InteractiveCell_executeLock:
  "executeLock (InteractiveCell feedback buttons cd) = None"
  by (simp add: InteractiveCell_def)

text \<open>
  The figures of the store stay where they are, and a figure gets its caption from the
  run that created it only: the resumption of any other run leaves the caption alone.
\<close>

lemma draw_figures:
  "length (figures (draw k s)) = length (figures s)
   \<and> figcaption (figures (draw k s) ! g) = figcaption (figures s ! g)"
proof (cases "pyodideMplTarget s")
  case None
  then show ?thesis by (simp add: draw_def)
next
  case (Some t)
  show ?thesis
  proof (cases "t < length (figures s)")
    case True
    then show ?thesis
      using Some by (cases "g = t") (simp_all add: draw_def)
  next
    case False
    then have "(figures s)[t := f] = figures s" for f
      by (simp add: list_update_beyond)
    then show ?thesis
      using Some by (simp add: draw_def)
  qed
qed

lemma resume_other_figure:
  assumes "figure_of a \<noteq> Some g" and "g < length (figures s)"
  shows "g < length (figures (snd (resume py fmt a s)))
         \<and> figcaption (figures (snd (resume py fmt a s)) ! g) = figcaption (figures s ! g)"
proof (cases a)
  case (AwaitingPyodide src)
  with assms show ?thesis
    by (simp add: runCode_install_def qpyodideResetOutputArray_def Let_def nth_append
        split: option.split)
next
  case (AwaitingLoad src h)
  with assms show ?thesis
    by (simp add: runCode_finish_eq qpyodideAddToOutputArray_def split: option.split)
next
  case (AwaitingScript src h)
  with assms show ?thesis
    by (simp add: interpreter_effects_eq Let_def draw_figures)
next
  case (AwaitingResult h settled)
  with assms show ?thesis
    by (simp add: runCode_finish_eq qpyodideAddToOutputArray_def split: sum.split)
next
  case (Ended c)
  with assms show ?thesis by simp
qed

lemmas step_defs = schedule_def runCode_enter_def truthy_flag_def disableInteractiveCells_def
  mark_output_def
  runCode_install_def qpyodideResetOutputArray_def runCode_finish_eq qpyodideAddToOutputArray_def
  interpreter_effects_eq draw_def Let_def

text \<open>
  Two runs that overlap share the installed sink. Two triggers on the default cell, each
  run resumed in turn until both have called \<^verbatim>\<open>runPythonAsync\<close>; the script of the
  first run then draws its element into the figure of the second run, which is the sink
  by then, and the first run ends with an empty graphic region.
\<close>

lemma overlapping_runs_share_the_sink:
  "schedule printing example_format
     [Trigger (js ''a''), Trigger (js ''b''), Resume 0, Resume 1, Resume 0, Resume 1,
      Resume 0, Resume 0] ([], default_cell)
   = (runs, s) \<Longrightarrow>
   runs = [Ended Returned, AwaitingScript (js ''b'') 1]
   \<and> figures s = [\<lparr>children = 0, figcaption = None\<rparr>, \<lparr>children = 1, figcaption = None\<rparr>]
   \<and> outputGraphDiv s = \<lparr>innerHTML = [], has_content = False\<rparr>"
  by (auto simp: step_defs default_cell_def InteractiveCell_def printing_def)

text \<open>
  A run that nothing interleaves with gets in its figure what its own script draws.
\<close>

lemma runCode_alone_graphic:
  assumes "executeLock s = None" and "mainPyodide py = None"
  shows "let s' = snd (runCode py fmt src s); g = length (figures s);
             n = (case loadPackagesFromImports py src of
                    Some err \<Rightarrow> 0 | None \<Rightarrow> drawn (runPythonAsync py src))
         in children (figures s' ! g) = n
            \<and> outputGraphDiv s' =
                 (if n > 0
                  then \<lparr>innerHTML = [Figure g], has_content = True\<rparr>
                  else \<lparr>innerHTML = [], has_content = False\<rparr>)"
  by (simp add: runCode_eq [OF assms] runCode_finish_eq obtain_results_eq
      disableInteractiveCells_def draw_def Let_def split: option.split)

lemma runCode_alone_load_failure:
  assumes "executeLock s = None" and "mainPyodide py = None"
    and "loadPackagesFromImports py src = Some err"
  shows "interpreter_calls (snd (runCode py fmt src s))
           = interpreter_calls s @ [LoadPackages src]
         \<and> qpyodideOutput (snd (runCode py fmt src s)) = [(Caught err, Stderr)]"
  by (simp add: runCode_eq [OF assms(1,2)] assms(3) runCode_finish_eq obtain_results_eq
      disableInteractiveCells_def)

subsection \<open>Closed forms of the steps of a feedback request\<close>

lemma groq_flask_distinct: "js ''groq'' \<noteq> js ''flask''"
  by (simp add: js_def)

lemma feedback_run_frame:
  assumes "feedback_run py fmt data s = Some (rm, s1)"
  shows "outputFeedbackDiv s1 = outputFeedbackDiv s \<and> alerts s1 = alerts s
         \<and> requests s1 = requests s \<and> editor s1 = editor s"
proof (cases "mainPyodide py")
  case None
  with assms show ?thesis
    by (auto simp: feedback_run_def obtain_results_eq Let_def enableInteractiveCells_def
        disableInteractiveCells_def qpyodideResetOutputArray_def split: if_splits)
next
  case (Some m)
  with assms show ?thesis
    by (auto simp: feedback_run_def Let_def disableInteractiveCells_def split: if_splits)
qed

lemma feedback_run_defined:
  assumes "executeLock s = None"
  shows "\<exists>rm s1. feedback_run py fmt data s = Some (rm, s1)"
  using assms
  by (cases "mainPyodide py") (simp_all add: feedback_run_def truthy_flag_def Let_def)

lemma render_feedback_mark:
  "map_option has_content (outputFeedbackDiv (snd (render_feedback data s)))
     = map_option has_content (outputFeedbackDiv s)"
  by (simp add: render_feedback_def Let_def split: option.split sum.split)

lemma render_feedback_no_choices:
  assumes "data = Null \<or> data = Object None \<or> data = Object (Some [])"
  shows "render_feedback data s =
           (Some TypeError,
            s\<lparr>outputFeedbackDiv :=
                 map_option (\<lambda>fb. fb\<lparr>innerHTML := []\<rparr>) (outputFeedbackDiv s)\<rparr>)"
proof (cases "outputFeedbackDiv s")
  case None
  then show ?thesis by (simp add: render_feedback_def)
next
  case (Some fb)
  with assms show ?thesis by (auto simp: render_feedback_def Let_def)
qed

lemma groq_settle_mark:
  "map_option has_content (outputFeedbackDiv (groq_settle t net cfg msgs s))
     = map_option has_content (outputFeedbackDiv s)"
proof -
  have "map_option has_content (outputFeedbackDiv (snd (render_feedback data u)))
          = map_option has_content (outputFeedbackDiv u)" for data and u :: "'a state"
    by (rule render_feedback_mark)
  then have render: "render_feedback data u = (e, u') \<Longrightarrow>
      map_option has_content (outputFeedbackDiv u') = map_option has_content (outputFeedbackDiv u)"
    for data e and u u' :: "'a state"
    by (metis snd_conv)
  show ?thesis
    by (auto simp: groq_settle_def window_alert_def fetch_def Let_def
        dest!: render split: fetched.split option.split prod.split)
qed

lemma flask_settle_mark:
  "map_option has_content (outputFeedbackDiv (flask_settle net s))
     = map_option has_content (outputFeedbackDiv s)"
proof -
  have "map_option has_content (outputFeedbackDiv (snd (render_feedback data u)))
          = map_option has_content (outputFeedbackDiv u)" for data and u :: "'a state"
    by (rule render_feedback_mark)
  then have render: "render_feedback data u = (e, u') \<Longrightarrow>
      map_option has_content (outputFeedbackDiv u') = map_option has_content (outputFeedbackDiv u)"
    for data e and u u' :: "'a state"
    by (metis snd_conv)
  show ?thesis
    by (auto simp: flask_settle_def window_alert_def Let_def
        dest!: render split: fetched.split option.split prod.split)
qed

subsection \<open>Reset on a run target that has a feedback region\<close>

lemma reset_with_feedback_region:
  assumes "outputFeedbackDiv s = Some fb"
  shows "resetButton_onclick s =
     (Returned,
      s\<lparr>editor := initialCode s,
        outputFeedbackDiv := Some (if has_content fb then fb\<lparr>innerHTML := []\<rparr> else fb),
        outputCodeDiv :=
          (if has_content (outputCodeDiv s) then (outputCodeDiv s)\<lparr>innerHTML := []\<rparr>
           else outputCodeDiv s),
        outputGraphDiv :=
          (if has_content (outputGraphDiv s) then (outputGraphDiv s)\<lparr>innerHTML := []\<rparr>
           else outputGraphDiv s)\<rparr>)"
  using assms by (simp add: resetButton_onclick_def Let_def)

lemma default_cell_executeLock: "executeLock default_cell = None"
  by (simp add: default_cell_def InteractiveCell_executeLock)

lemma feedback_cell_executeLock: "executeLock feedback_cell = None"
  by (simp add: feedback_cell_def InteractiveCell_executeLock)

lemma feedback_cell_region:
  "outputFeedbackDiv feedback_cell = Some \<lparr>innerHTML = [], has_content = False\<rparr>"
  by (simp add: feedback_cell_def InteractiveCell_def example_data_def)

text \<open>
  The mark that the click handler of the run button puts on the output region does not
  outlast the run it starts.
\<close>

lemma runButton_onclick_output:
  assumes "executeLock s = None" and "mainPyodide py = None"
  shows "outputCodeDiv (snd (runButton_onclick py fmt s))
           = outputCodeDiv (snd (runCode py fmt (editor s) s))"
  using assms
  by (simp add: runButton_onclick_def runCode_def runCode_enter_undefined_guard
      runCode_body_def run_alone_eq runCode_finish_eq obtain_results_eq
      disableInteractiveCells_def mark_output_def Let_def del: run_alone.simps)

lemma addCodeBlockButton_onclick_frame:
  "executeLock (snd (addCodeBlockButton_onclick feedback s)) = executeLock s
   \<and> outputFeedbackDiv (snd (addCodeBlockButton_onclick feedback s))
       = (if feedback then Some \<lparr>innerHTML = [], has_content = False\<rparr> else None)"
  by (simp add: addCodeBlockButton_onclick_def qpyodideSetInteractiveButtonState_def Let_def)

lemma resetButton_onclick_executeLock:
  "executeLock (snd (resetButton_onclick s)) = executeLock s"
  by (simp add: resetButton_onclick_def Let_def split: option.split)

lemma reset_null_feedback_region:
  assumes "outputFeedbackDiv s = None"
  shows "resetButton_onclick s = (Threw TypeError, s\<lparr>editor := initialCode s\<rparr>)"
  using assms by (simp add: resetButton_onclick_def Let_def)

lemma feedback_run_lock:
  assumes "feedback_run py fmt data s = Some (rm, s1)"
  shows "executeLock s1 = executeLock s"
proof (cases "mainPyodide py")
  case None
  with assms show ?thesis
    by (auto simp: feedback_run_def obtain_results_eq Let_def enableInteractiveCells_def
        disableInteractiveCells_def qpyodideResetOutputArray_def split: if_splits)
next
  case (Some m)
  with assms show ?thesis
    by (auto simp: feedback_run_def Let_def disableInteractiveCells_def split: if_splits)
qed

lemma render_feedback_executeLock:
  "executeLock (snd (render_feedback data s)) = executeLock s"
  by (simp add: render_feedback_def Let_def split: option.split sum.split)

lemma feedbackButton_onclick_executeLock:
  "executeLock (snd (feedbackButton_onclick t py fmt cfg net s)) = executeLock s"
proof -
  have render: "render_feedback data u = (e, u') \<Longrightarrow> executeLock u' = executeLock u"
    for data e and u u' :: "'a state"
    using render_feedback_executeLock [of data u] by simp
  have groq: "executeLock (groq_settle t net cfg msgs u) = executeLock u"
    for msgs and u :: "'a state"
    by (auto simp: groq_settle_def window_alert_def fetch_def Let_def
        dest!: render split: fetched.split option.split prod.split)
  have flask: "executeLock (flask_settle net u) = executeLock u" for u :: "'a state"
    by (auto simp: flask_settle_def window_alert_def Let_def
        dest!: render split: fetched.split option.split prod.split)
  show ?thesis
  proof (cases "feedback_run py fmt (editor s) s")
    case None
    then show ?thesis by (simp add: feedbackButton_onclick_def)
  next
    case (Some p)
    obtain rm s1 where p: "p = (rm, s1)" by (cases p)
    from Some p have "executeLock s1 = executeLock s"
      using feedback_run_lock by blast
    with Some p show ?thesis
      by (simp add: feedbackButton_onclick_def Let_def groq flask window_alert_def fetch_def
          split: option.split)
  qed
qed

text \<open>The handler under each backend, once the fresh run is done.\<close>

lemma feedback_flask_eq:
  assumes "feedback_run py fmt (editor s) s = Some (rm, s1)"
    and "outputFeedbackDiv s = Some fb"
    and "backend cfg = js ''flask''"
  shows "feedbackButton_onclick t py fmt cfg net s =
     (Returned,
      flask_settle net
        (s1\<lparr>requests := requests s1 @
               [Post (js ''http://127.0.0.1:5000/api/feedback'') None
                  \<lparr>messages = exchange rm (editor s), model = None\<rparr>],
            outputFeedbackDiv := Some (fb\<lparr>has_content := True\<rparr>)\<rparr>))"
proof -
  have "outputFeedbackDiv s1 = Some fb"
    using feedback_run_frame [OF assms(1)] assms(2) by simp
  then show ?thesis
    by (simp add: feedbackButton_onclick_def assms(1,3) Let_def groq_flask_distinct
        groq_flask_distinct [symmetric] fetch_def)
qed

lemma feedback_groq_eq:
  assumes "feedback_run py fmt (editor s) s = Some (rm, s1)"
    and "outputFeedbackDiv s = Some fb"
    and "backend cfg = js ''groq''" and "apiKeyInput cfg \<noteq> []"
  shows "feedbackButton_onclick t py fmt cfg net s =
     (Returned,
      groq_settle t net cfg (exchange rm (editor s))
        (s1\<lparr>requests := requests s1 @
               [Get (baseUrlInput cfg @ js ''/models'') (apiKeyInput cfg)],
            outputFeedbackDiv := Some (fb\<lparr>has_content := True\<rparr>)\<rparr>))"
proof -
  have "outputFeedbackDiv s1 = Some fb"
    using feedback_run_frame [OF assms(1)] assms(2) by simp
  then show ?thesis
    by (simp add: feedbackButton_onclick_def assms(1,3,4) Let_def groq_flask_distinct
        groq_flask_distinct [symmetric] fetch_def)
qed

lemma feedback_flask_without_choices:
  assumes lock: "executeLock s = None"
    and region: "outputFeedbackDiv s = Some fb"
    and reply: "feedback_reply net = Json data"
    and lacks: "data = Null \<or> data = Object None \<or> data = Object (Some [])"
    and flask: "backend cfg = js ''flask''"
  shows "outputFeedbackDiv (snd (feedbackButton_onclick t py fmt cfg net s))
           = Some \<lparr>innerHTML = innerHTML fb, has_content = True\<rparr>
         \<and> alerts (snd (feedbackButton_onclick t py fmt cfg net s))
           = alerts s @ [Alert choices_missing None]"
proof -
  obtain rm s1 where run: "feedback_run py fmt (editor s) s = Some (rm, s1)"
    using feedback_run_defined [OF lock] by blast
  have frame: "alerts s1 = alerts s"
    using feedback_run_frame [OF run] by simp
  have no_choices: "\<not> has_choices data"
    using lacks by auto
  show ?thesis
    by (simp add: feedback_flask_eq [OF run region flask] flask_settle_def reply no_choices
        window_alert_def frame)
qed

lemma feedback_groq_without_choices:
  assumes lock: "executeLock s = None"
    and region: "outputFeedbackDiv s = Some fb"
    and reply: "feedback_reply net = Json data"
    and lacks: "data = Null \<or> data = Object None \<or> data = Object (Some [])"
    and groq: "backend cfg = js ''groq''" and key: "apiKeyInput cfg \<noteq> []"
    and models: "models_reply net = Json (Some ids)"
  shows "outputFeedbackDiv (snd (feedbackButton_onclick t py fmt cfg net s))
           = Some \<lparr>innerHTML = [], has_content = True\<rparr>
         \<and> alerts (snd (feedbackButton_onclick t py fmt cfg net s))
           = alerts s @ [Alert (api_error_prefix t) (Some TypeError)]"
proof -
  obtain rm s1 where run: "feedback_run py fmt (editor s) s = Some (rm, s1)"
    using feedback_run_defined [OF lock] by blast
  have frame: "alerts s1 = alerts s"
    using feedback_run_frame [OF run] by simp
  show ?thesis
    by (simp add: feedback_groq_eq [OF run region groq key] groq_settle_def reply models
        render_feedback_no_choices [OF lacks] window_alert_def fetch_def frame Let_def)
qed

text \<open>A reply with a text is rendered: the label, then the text.\<close>

lemma feedback_flask_rendered:
  assumes lock: "executeLock s = None"
    and region: "outputFeedbackDiv s = Some fb"
    and reply: "feedback_reply net
                  = Json (Object (Some (Choice (Some (Message (Some txt))) # cs)))"
    and flask: "backend cfg = js ''flask''"
  shows "outputFeedbackDiv (snd (feedbackButton_onclick t py fmt cfg net s))
           = Some \<lparr>innerHTML = [FeedbackLabel, FeedbackText (replaceNewlinesWithBr txt)],
                   has_content = True\<rparr>
         \<and> alerts (snd (feedbackButton_onclick t py fmt cfg net s)) = alerts s"
proof -
  obtain rm s1 where run: "feedback_run py fmt (editor s) s = Some (rm, s1)"
    using feedback_run_defined [OF lock] by blast
  have frame: "alerts s1 = alerts s"
    using feedback_run_frame [OF run] by simp
  show ?thesis
    by (simp add: feedback_flask_eq [OF run region flask] flask_settle_def reply
        render_feedback_def Let_def frame)
qed

lemma feedback_flask_failed:
  assumes lock: "executeLock s = None"
    and region: "outputFeedbackDiv s = Some fb"
    and reply: "feedback_reply net = Failed e"
    and flask: "backend cfg = js ''flask''"
  shows "outputFeedbackDiv (snd (feedbackButton_onclick t py fmt cfg net s))
           = Some (fb\<lparr>has_content := True\<rparr>)
         \<and> alerts (snd (feedbackButton_onclick t py fmt cfg net s))
           = alerts s @ [Alert (js ''Error when requesting the API:  '') (Some e)]"
proof -
  obtain rm s1 where run: "feedback_run py fmt (editor s) s = Some (rm, s1)"
    using feedback_run_defined [OF lock] by blast
  have frame: "alerts s1 = alerts s"
    using feedback_run_frame [OF run] by simp
  show ?thesis
    by (simp add: feedback_flask_eq [OF run region flask] flask_settle_def reply
        window_alert_def frame)
qed

subsection \<open>The guard of a run\<close>

text \<open>
  C1 says that a run triggered while the cell is marked Running returns at once, the
  guard reading the flag that \<^verbatim>\<open>disableInteractiveCells\<close> sets. In the code the
  guard reads \<^verbatim>\<open>executeLock\<close> and the lock is \<^verbatim>\<open>executionLock\<close>. On a cell
  fresh from the constructor, a first trigger passes the guard and sets the lock; while
  that run waits for the interpreter a second trigger (the Shift+Enter command, which no
  disabled button stops) passes the guard as well. With the two runs resumed in turn,
  the interpreter is asked to load for both and then to run both source texts.
\<close>

theorem second_trigger_while_running:
  "case runCode_enter default_cell of
     None \<Rightarrow> False
   | Some s1 \<Rightarrow>
       executionLock s1 \<and>
       (case runCode_enter s1 of
          None \<Rightarrow> False
        | Some s2 \<Rightarrow>
            interpreter_calls
              (snd (schedule printing example_format
                 [Resume 0, Resume 1, Resume 0, Resume 1, Resume 0, Resume 1, Resume 0, Resume 1]
                 ([AwaitingPyodide (js ''a''), AwaitingPyodide (js ''b'')], s2)))
            = [LoadPackages (js ''a''), LoadPackages (js ''b''),
               RunPython (js ''a''), RunPython (js ''b'')])"
  by (simp add: step_defs default_cell_def InteractiveCell_def printing_def)

subsection \<open>A failure of the dependency loading\<close>

text \<open>
  C2 says that a failure of the dependency loading is ignored and the source text is
  still executed. The call of \<^verbatim>\<open>loadPackagesFromImports\<close> stands in the same
  \<^verbatim>\<open>try\<close> block as the call of \<^verbatim>\<open>runPythonAsync\<close>, before it. As amended:
  for every run via runCode whose dependency loading fails, in whatever state the run is
  resumed after the failure (other runs may have been interleaved): the run ends in that
  one resumption and returns; it makes no call to the interpreter, so the source text is
  not executed; the failure is captured as a stderr record at the end of the buffer; the
  output region is replaced by the drained block, visible and marked non-empty if the
  block has a non-whitespace character, hidden and marked empty otherwise; the graphic
  region is replaced by the run's own figure if it holds elements and is empty and
  marked empty otherwise; the lock is released and every run button is enabled.
\<close>

theorem runCode_load_failure:
  assumes "loadPackagesFromImports py src = Some err"
  shows "let r = resume py fmt (AwaitingLoad src g) s; s' = snd r;
             block = fmt (qpyodideOutput s @ [(Caught err, Stderr)])
         in fst r = Ended Returned
            \<and> interpreter_calls s' = interpreter_calls s
            \<and> qpyodideOutput s' = qpyodideOutput s @ [(Caught err, Stderr)]
            \<and> outputCodeDiv s' =
                 (if has_non_whitespace block
                  then \<lparr>innerHTML = [Pre False (Some block)], has_content = True\<rparr>
                  else \<lparr>innerHTML = [Pre True None], has_content = False\<rparr>)
            \<and> outputGraphDiv s' =
                 (if children (figures s ! g) > 0
                  then \<lparr>innerHTML = [Figure g], has_content = True\<rparr>
                  else \<lparr>innerHTML = [], has_content = False\<rparr>)
            \<and> \<not> executionLock s'
            \<and> run_buttons s' = map (\<lambda>_. False) (run_buttons s)"
  by (simp add: assms runCode_finish_eq qpyodideAddToOutputArray_def Let_def)

text \<open>
  The amended claim on the default cell: a run is triggered and resumed once, so that
  its loading is pending; the loading fails.
\<close>

theorem runCode_load_failure_witness:
  "loadPackagesFromImports load_failing (js ''import numpy'')
     = Some (Rejected (js ''Failed to fetch''))
   \<and> fst load_pending = [AwaitingLoad (js ''import numpy'') 0]
   \<and> fst (resume load_failing example_format (AwaitingLoad (js ''import numpy'') 0)
        (snd load_pending)) = Ended Returned
   \<and> interpreter_calls (snd (resume load_failing example_format
        (AwaitingLoad (js ''import numpy'') 0) (snd load_pending)))
      = [LoadPackages (js ''import numpy'')]
   \<and> outputCodeDiv (snd (resume load_failing example_format
        (AwaitingLoad (js ''import numpy'') 0) (snd load_pending)))
      = \<lparr>innerHTML = [Pre False (Some (js ''Error''))], has_content = True\<rparr>
   \<and> outputGraphDiv (snd (resume load_failing example_format
        (AwaitingLoad (js ''import numpy'') 0) (snd load_pending)))
      = \<lparr>innerHTML = [], has_content = False\<rparr>
   \<and> \<not> executionLock (snd (resume load_failing example_format
        (AwaitingLoad (js ''import numpy'') 0) (snd load_pending)))"
proof -
  have load: "loadPackagesFromImports load_failing (js ''import numpy'')
      = Some (Rejected (js ''Failed to fetch''))"
    by (simp add: load_failing_def)
  have pending: "fst load_pending = [AwaitingLoad (js ''import numpy'') 0]"
    "interpreter_calls (snd load_pending) = [LoadPackages (js ''import numpy'')]"
    "qpyodideOutput (snd load_pending) = []"
    "figures (snd load_pending) = [\<lparr>children = 0, figcaption = None\<rparr>]"
    by (simp_all add: load_pending_def step_defs default_cell_def InteractiveCell_def
        load_failing_def)
  have block: "example_format [(Caught (Rejected (js ''Failed to fetch'')), Stderr)]
      = js ''Error''"
    by (simp add: example_format_def)
  have visible: "has_non_whitespace (js ''Error'')"
    by (simp add: has_non_whitespace_def is_whitespace_def js_def)
  show ?thesis
    using runCode_load_failure [OF load, of example_format 0 "snd load_pending"]
    by (simp add: Let_def load pending block visible del: resume.simps)
qed

text \<open>
  The claim as stated fails on a run whose dependency loading rejects: the interpreter is
  asked to load the packages and is never asked to run the text.
\<close>

theorem load_failure_counterexample:
  "loadPackagesFromImports load_failing (js ''import numpy'')
     = Some (Rejected (js ''Failed to fetch''))
   \<and> interpreter_calls
        (snd (runCode load_failing example_format (js ''import numpy'') default_cell))
       = [LoadPackages (js ''import numpy'')]"
proof -
  have ready: "mainPyodide load_failing = None"
    and load: "loadPackagesFromImports load_failing
                 = (\<lambda>src. Some (Rejected (js ''Failed to fetch'')))"
    by (simp_all add: load_failing_def)
  have calls: "interpreter_calls default_cell = []"
    by (simp add: default_cell_def InteractiveCell_def)
  show ?thesis
    by (simp add: runCode_eq [OF default_cell_executeLock ready] load calls runCode_finish_eq
        obtain_results_eq disableInteractiveCells_def)
qed

subsection \<open>Release of the run lock\<close>

text \<open>
  C3 says that an error raised by the source text is captured as a stderr record, and
  that the lock is released and the run buttons are enabled on every exit path,
  a failure at any intermediate step included. \<^verbatim>\<open>enableInteractiveCells\<close> is the
  last statement of \<^verbatim>\<open>runCode\<close>, outside any \<^verbatim>\<open>finally\<close>. As amended: for
  every run via runCode that gets the interpreter, an error raised by loading the
  dependencies or by executing the source text is captured as the last record of the
  buffer, on stderr, and is not propagated: runCode returns, and when it does the lock is
  released and every run button of the page is enabled.
\<close>

theorem runCode_releases:
  assumes "executeLock s = None" and "mainPyodide py = None"
  shows "let r = runCode py fmt src s; s' = snd r
         in fst r = Returned \<and> \<not> executionLock s'
            \<and> run_buttons s' = map (\<lambda>_. False) (run_buttons s)
            \<and> qpyodideOutput s' \<noteq> []
            \<and> last (qpyodideOutput s') =
                (case loadPackagesFromImports py src of
                   Some err \<Rightarrow> (Caught err, Stderr)
                 | None \<Rightarrow>
                    (case outcome (runPythonAsync py src) of
                       Inl err \<Rightarrow> (Caught err, Stderr)
                     | Inr output \<Rightarrow> (Value output, Stdout)))"
  by (simp add: runCode_eq [OF assms] runCode_finish_eq obtain_results_eq
      disableInteractiveCells_def Let_def split: option.split)

text \<open>The amended claim on the default cell and a source text that raises.\<close>

theorem runCode_releases_witness:
  "executeLock default_cell = None \<and> mainPyodide raising = None
   \<and> fst (runCode raising example_format (js ''x = 1/0'') default_cell) = Returned
   \<and> \<not> executionLock (snd (runCode raising example_format (js ''x = 1/0'') default_cell))
   \<and> run_buttons (snd (runCode raising example_format (js ''x = 1/0'') default_cell)) = [False]
   \<and> last (qpyodideOutput (snd (runCode raising example_format (js ''x = 1/0'') default_cell)))
        = (Caught (Rejected (js ''ZeroDivisionError'')), Stderr)"
  using runCode_releases [of default_cell raising example_format "js ''x = 1/0''"]
  by (simp add: default_cell_executeLock raising_def Let_def default_cell_def InteractiveCell_def)

text \<open>
  The claim as stated fails when \<^verbatim>\<open>await mainPyodide\<close> throws: runCode ends with
  that error, the lock set and the run button disabled.
\<close>

theorem rejected_startup_counterexample:
  "fst (runCode not_starting example_format (js ''print(1+1)'') default_cell)
     = Threw (Rejected (js ''Failed to fetch''))
   \<and> executionLock (snd (runCode not_starting example_format (js ''print(1+1)'') default_cell))
   \<and> run_buttons (snd (runCode not_starting example_format (js ''print(1+1)'') default_cell))
       = [True]"
proof -
  have pending: "mainPyodide not_starting = Some (js ''Failed to fetch'')"
    by (simp add: not_starting_def)
  have buttons: "run_buttons default_cell = [True]"
    by (simp add: default_cell_def InteractiveCell_def)
  show ?thesis
    by (simp add: runCode_pending [OF default_cell_executeLock pending]
        disableInteractiveCells_def buttons)
qed

subsection \<open>A reply without choices\<close>

text \<open>
  C4 says that under either backend a reply without \<^verbatim>\<open>choices\<close> or without
  \<^verbatim>\<open>choices[0]\<close> ends in an alert and a cleared feedback region, the region having
  been cleared before the request under the local-server backend. The handler clears
  the region only in the callback that renders a reply, which the local-server backend
  enters only for a reply with a choice. As amended: for every feedback request whose
  reply is \<^verbatim>\<open>null\<close> or lacks \<^verbatim>\<open>choices\<close> or has no \<^verbatim>\<open>choices[0]\<close>, nothing of
  the reply is rendered and one alert is raised; under the remote-model backend the
  region ends empty; under the local-server backend the region keeps the children it had
  before the request. Under both the region ends marked non-empty.
\<close>

theorem feedback_without_choices:
  assumes lock: "executeLock s = None"
    and region: "outputFeedbackDiv s = Some fb"
    and reply: "feedback_reply net = Json data"
    and lacks: "data = Null \<or> data = Object None \<or> data = Object (Some [])"
    and protocol: "backend cfg = js ''flask''
        \<or> (backend cfg = js ''groq'' \<and> apiKeyInput cfg \<noteq> []
            \<and> models_reply net = Json (Some ids))"
  shows "let s' = snd (feedbackButton_onclick t py fmt cfg net s)
         in outputFeedbackDiv s' =
              Some \<lparr>innerHTML = (if backend cfg = js ''flask'' then innerHTML fb else []),
                    has_content = True\<rparr>
            \<and> alerts s' = alerts s @
                [if backend cfg = js ''flask'' then Alert choices_missing None
                 else Alert (api_error_prefix t) (Some TypeError)]"
  using protocol
proof
  assume flask: "backend cfg = js ''flask''"
  show ?thesis
    using feedback_flask_without_choices [OF lock region reply lacks flask, of t py fmt]
    by (simp add: flask Let_def)
next
  assume groq: "backend cfg = js ''groq'' \<and> apiKeyInput cfg \<noteq> []
      \<and> models_reply net = Json (Some ids)"
  then have "backend cfg \<noteq> js ''flask''"
    using groq_flask_distinct by simp
  then show ?thesis
    using feedback_groq_without_choices [OF lock region reply lacks, of cfg ids t py fmt] groq
    by (simp add: Let_def)
qed

text \<open>The amended claim under the remote-model backend, on a reply that is \<^verbatim>\<open>{}\<close>.\<close>

theorem feedback_without_choices_witness:
  "executeLock feedback_cell = None
   \<and> outputFeedbackDiv feedback_cell = Some \<lparr>innerHTML = [], has_content = False\<rparr>
   \<and> feedback_reply without_choices = Json (Object None)
   \<and> backend groq_settings = js ''groq'' \<and> apiKeyInput groq_settings \<noteq> []
   \<and> models_reply without_choices = Json (Some [js ''llama3-8b-8192'', js ''gemma-7b-it''])
   \<and> outputFeedbackDiv
        (snd (feedbackButton_onclick First printing example_format groq_settings without_choices
           feedback_cell))
       = Some \<lparr>innerHTML = [], has_content = True\<rparr>
   \<and> alerts
        (snd (feedbackButton_onclick First printing example_format groq_settings without_choices
           feedback_cell))
       = [Alert (js ''Error requesting the API: '') (Some TypeError)]"
proof -
  have cfg: "backend groq_settings = js ''groq''" "apiKeyInput groq_settings \<noteq> []"
    by (simp_all add: groq_settings_def js_def)
  have net: "feedback_reply without_choices = Json (Object None)"
    "models_reply without_choices = Json (Some [js ''llama3-8b-8192'', js ''gemma-7b-it''])"
    by (simp_all add: without_choices_def)
  have no_alerts: "alerts feedback_cell = []"
    by (simp add: feedback_cell_def InteractiveCell_def)
  have "Object None = Null \<or> Object None = Object None \<or> Object None = Object (Some [])"
    by simp
  from feedback_without_choices [OF feedback_cell_executeLock feedback_cell_region net(1) this,
      of groq_settings "[js ''llama3-8b-8192'', js ''gemma-7b-it'']" First printing example_format]
  show ?thesis
    by (simp add: cfg net groq_flask_distinct feedback_cell_executeLock feedback_cell_region
        Let_def no_alerts api_error_prefix_def)
qed

text \<open>
  The claim as stated fails under the local-server backend: a first request is answered
  and rendered; a second request is answered by \<^verbatim>\<open>{}\<close>, and the region still shows
  the first reply.
\<close>

theorem stale_feedback_counterexample:
  "feedback_reply without_choices = Json (Object None)
   \<and> outputFeedbackDiv
        (snd (feedbackButton_onclick First printing example_format flask_settings without_choices
           (snd (feedbackButton_onclick First printing example_format flask_settings replying
              feedback_cell))))
       = Some \<lparr>innerHTML = [FeedbackLabel, FeedbackText (js ''Fine.'')], has_content = True\<rparr>"
proof -
  have flask: "backend flask_settings = js ''flask''"
    by (simp add: flask_settings_def)
  have good: "feedback_reply replying
      = Json (Object (Some (Choice (Some (Message (Some (js ''Fine.'')))) # [])))"
    by (simp add: replying_def)
  have bad: "feedback_reply without_choices = Json (Object None)"
    by (simp add: without_choices_def)
  have plain: "replaceNewlinesWithBr (js ''Fine.'') = js ''Fine.''"
    by (simp add: replaceNewlinesWithBr_def js_def)
  have lock: "executeLock (snd (feedbackButton_onclick First printing example_format
      flask_settings replying feedback_cell)) = None"
    by (simp add: feedbackButton_onclick_executeLock feedback_cell_executeLock)
  have shown: "outputFeedbackDiv (snd (feedbackButton_onclick First printing example_format
      flask_settings replying feedback_cell))
      = Some \<lparr>innerHTML = [FeedbackLabel, FeedbackText (js ''Fine.'')], has_content = True\<rparr>"
    using feedback_flask_rendered [OF feedback_cell_executeLock feedback_cell_region good
        flask, of First printing example_format]
    by (simp add: plain)
  have lacks: "Object None = Null \<or> Object None = Object None \<or> Object None = Object (Some [])"
    by simp
  show ?thesis
    using feedback_flask_without_choices [OF lock shown bad lacks flask, of First printing
        example_format]
    by (simp add: bad)
qed

subsection \<open>The mark of the feedback region\<close>

text \<open>
  C5 says that the feedback region is marked non-empty only on a successful render, never
  on a network failure or a malformed reply. The handler marks the region as the last
  statement of its synchronous part, before any reply can arrive. As amended: every
  feedback request marks the feedback region non-empty, whatever becomes of the network
  calls, except a remote-model request with an empty credential, which returns before
  the mark and leaves it as it was.
\<close>

theorem feedback_mark:
  assumes lock: "executeLock s = None"
    and region: "outputFeedbackDiv s = Some fb"
  shows "map_option has_content
           (outputFeedbackDiv (snd (feedbackButton_onclick t py fmt cfg net s)))
         = Some (if backend cfg = js ''groq'' \<and> apiKeyInput cfg = []
                 then has_content fb else True)"
proof -
  obtain rm s1 where run: "feedback_run py fmt (editor s) s = Some (rm, s1)"
    using feedback_run_defined [OF lock] by blast
  have frame: "outputFeedbackDiv s1 = Some fb"
    using feedback_run_frame [OF run] region by simp
  show ?thesis
    by (simp add: feedbackButton_onclick_def run frame Let_def groq_settle_mark
        flask_settle_mark window_alert_def fetch_def del: map_option_eq_Some)
qed

text \<open>The amended claim under the remote-model backend with a credential.\<close>

theorem feedback_mark_witness:
  "executeLock feedback_cell = None
   \<and> outputFeedbackDiv feedback_cell = Some \<lparr>innerHTML = [], has_content = False\<rparr>
   \<and> map_option has_content
        (outputFeedbackDiv
          (snd (feedbackButton_onclick First printing example_format groq_settings replying
             feedback_cell)))
       = Some True"
  using feedback_mark [OF feedback_cell_executeLock feedback_cell_region, of First printing
      example_format groq_settings replying]
  by (simp add: feedback_cell_executeLock feedback_cell_region groq_settings_def js_def
      del: map_option_eq_Some)

text \<open>
  The claim as stated fails on a request that the network does not carry: the region,
  unmarked and empty before, ends marked non-empty and empty.
\<close>

theorem failed_request_counterexample:
  "feedback_reply unreachable = Failed (Rejected (js ''Failed to fetch''))
   \<and> outputFeedbackDiv feedback_cell = Some \<lparr>innerHTML = [], has_content = False\<rparr>
   \<and> outputFeedbackDiv
        (snd (feedbackButton_onclick First printing example_format flask_settings unreachable
           feedback_cell))
       = Some \<lparr>innerHTML = [], has_content = True\<rparr>"
proof -
  have flask: "backend flask_settings = js ''flask''"
    by (simp add: flask_settings_def)
  have down: "feedback_reply unreachable = Failed (Rejected (js ''Failed to fetch''))"
    by (simp add: unreachable_def)
  show ?thesis
    using feedback_flask_failed [OF feedback_cell_executeLock feedback_cell_region down flask,
        of First printing example_format]
    by (simp add: down feedback_cell_region)
qed

subsection \<open>Reset\<close>

text \<open>
  C6 says that Reset restores the source text and clears each of the three regions
  exactly when it is marked non-empty, for every run target. On the cell that the
  document settings give (\<^verbatim>\<open>globalThis.feedback\<close> is \<^verbatim>\<open>false\<close>, so there is no
  feedback region), after a run that printed \<^verbatim>\<open>2\<close>: the output region is marked
  non-empty and holds the block; Reset restores the source text and throws; the output
  region still holds the block.
\<close>

theorem reset_leaves_marked_output:
  "outputCodeDiv (snd (runCode printing example_format (js ''print(2)'') default_cell))
     = \<lparr>innerHTML = [Pre False (Some (js ''2''))], has_content = True\<rparr>
   \<and> resetButton_onclick (snd (runCode printing example_format (js ''print(2)'') default_cell))
     = (Threw TypeError,
        (snd (runCode printing example_format (js ''print(2)'') default_cell))
          \<lparr>editor := js ''print(1+1)''\<rparr>)"
proof -
  have ready: "mainPyodide printing = None"
    by (simp add: printing_def)
  have null: "outputFeedbackDiv default_cell = None"
    by (simp add: default_cell_def InteractiveCell_def)
  have initial: "initialCode default_cell = js ''print(1+1)''"
    by (simp add: default_cell_def InteractiveCell_def example_data_def)
  have frame: "outputFeedbackDiv (snd (runCode printing example_format (js ''print(2)'')
      default_cell)) = None"
    "initialCode (snd (runCode printing example_format (js ''print(2)'') default_cell))
       = js ''print(1+1)''"
    using runCode_frame [of printing example_format "js ''print(2)''" default_cell] null initial
    by simp_all
  have block: "example_format (qpyodideOutput
      (snd (runCode printing example_format (js ''print(2)'') default_cell))) = js ''2''"
    by (simp add: runCode_buffer [OF default_cell_executeLock ready])
      (simp add: printing_def example_format_def)
  have visible: "has_non_whitespace (js ''2'')"
    by (simp add: has_non_whitespace_def is_whitespace_def js_def)
  have shown: "outputCodeDiv (snd (runCode printing example_format (js ''print(2)'')
      default_cell)) =
      (if has_non_whitespace (example_format (qpyodideOutput
            (snd (runCode printing example_format (js ''print(2)'') default_cell))))
       then \<lparr>innerHTML = [Pre False (Some (example_format (qpyodideOutput
            (snd (runCode printing example_format (js ''print(2)'') default_cell)))))],
             has_content = True\<rparr>
       else \<lparr>innerHTML = [Pre True None], has_content = False\<rparr>)"
    by (simp add: runCode_eq [OF default_cell_executeLock ready] runCode_finish_eq)
  show ?thesis
    by (simp add: shown block visible reset_null_feedback_region [OF frame(1)] frame(2))
qed

subsection \<open>The output region after a run\<close>

text \<open>
  C7: for every run via runCode that gets the interpreter, with \<open>block\<close> the buffer
  of the run drained into one block: if the block has a code unit that is not
  whitespace, the output region holds one visible \<^verbatim>\<open>pre\<close> with the block and is
  marked non-empty; otherwise it holds one hidden, empty \<^verbatim>\<open>pre\<close> and is marked
  empty. Nothing of what the region held before the run is left.
\<close>

theorem runCode_output_block:
  assumes "executeLock s = None" and "mainPyodide py = None"
  shows "let s' = snd (runCode py fmt src s); block = fmt (qpyodideOutput s')
         in outputCodeDiv s' =
              (if has_non_whitespace block
               then \<lparr>innerHTML = [Pre False (Some block)], has_content = True\<rparr>
               else \<lparr>innerHTML = [Pre True None], has_content = False\<rparr>)"
  by (simp add: runCode_eq [OF assms] runCode_finish_eq Let_def)

text \<open>The claim on the default cell and a source text that prints \<^verbatim>\<open>2\<close>.\<close>

theorem runCode_output_block_witness:
  "executeLock default_cell = None \<and> mainPyodide printing = None
   \<and> outputCodeDiv (snd (runCode printing example_format (js ''print(1+1)'') default_cell))
        = \<lparr>innerHTML = [Pre False (Some (js ''2''))], has_content = True\<rparr>"
proof -
  have ready: "mainPyodide printing = None"
    by (simp add: printing_def)
  have block: "example_format (qpyodideOutput
      (snd (runCode printing example_format (js ''print(1+1)'') default_cell))) = js ''2''"
    by (simp add: runCode_buffer [OF default_cell_executeLock ready])
      (simp add: printing_def example_format_def)
  have visible: "has_non_whitespace (js ''2'')"
    by (simp add: has_non_whitespace_def is_whitespace_def js_def)
  show ?thesis
    using runCode_output_block [OF default_cell_executeLock ready, of example_format
        "js ''print(1+1)''"]
    by (simp add: Let_def block visible default_cell_executeLock ready)
qed

subsection \<open>The graphic region after a run\<close>



subsection \<open>The credential and the choice of the model\<close>

text \<open>
  C9: for every feedback request under the remote-model backend: if the credential is
  empty, the handler raises the prompt \<^verbatim>\<open>Please enter your API Key.\<close>, returns and
  makes no request; otherwise, once the model listing has answered with its ids, the
  handler has made two requests, the listing and the POST, and the model of the POST is
  the preferred id \<^verbatim>\<open>mixtral-8x7b-32768\<close> when it is among the listed ids and the
  first listed id when it is not (no model when no id is listed).
\<close>

theorem feedback_model_choice:
  assumes lock: "executeLock s = None"
    and groq: "backend cfg = js ''groq''"
  shows "let r = feedbackButton_onclick t py fmt cfg net s; s' = snd r
         in (apiKeyInput cfg = [] \<longrightarrow>
               fst r = Returned \<and> requests s' = requests s
               \<and> alerts s' = alerts s @ [Alert (js ''Please enter your API Key.'') None])
            \<and> (apiKeyInput cfg \<noteq> [] \<longrightarrow>
                 (\<forall>modelIds. models_reply net = Json (Some modelIds) \<longrightarrow>
                    (\<exists>msgs. requests s' = requests s @
                       [Get (baseUrlInput cfg @ js ''/models'') (apiKeyInput cfg),
                        Post (baseUrlInput cfg @ js ''/chat/completions'')
                          (Some (apiKeyInput cfg))
                          \<lparr>messages = msgs,
                           model =
                             (if js ''mixtral-8x7b-32768'' \<in> set modelIds
                              then Some (js ''mixtral-8x7b-32768'')
                              else (case modelIds of [] \<Rightarrow> None | m # _ \<Rightarrow> Some m))\<rparr>])))"
proof -
  obtain rm s1 where run: "feedback_run py fmt (editor s) s = Some (rm, s1)"
    using feedback_run_defined [OF lock] by blast
  have frame: "alerts s1 = alerts s" "requests s1 = requests s"
    using feedback_run_frame [OF run] by simp_all
  have render: "requests (snd (render_feedback data u)) = requests u"
    for data and u :: "'a state"
    by (simp add: render_feedback_def Let_def split: option.split sum.split)
  then have render': "render_feedback data u = (e, u') \<Longrightarrow> requests u' = requests u"
    for data e and u u' :: "'a state"
    by (metis snd_conv)
  have settle: "models_reply net = Json (Some modelIds) \<Longrightarrow>
      requests (groq_settle t net cfg msgs u) = requests u @
        [Post (baseUrlInput cfg @ js ''/chat/completions'') (Some (apiKeyInput cfg))
           \<lparr>messages = msgs, model = select_model modelIds\<rparr>]"
    for modelIds msgs and u :: "'a state"
    by (auto simp: groq_settle_def window_alert_def fetch_def Let_def
        dest!: render' split: fetched.split option.split prod.split)
  show ?thesis
    by (auto simp: feedbackButton_onclick_def run frame groq Let_def settle select_model_def
        groq_flask_distinct groq_flask_distinct [symmetric] window_alert_def fetch_def
        split: option.split)
qed

text \<open>The claim with a credential and a listing that lacks the preferred id.\<close>

theorem feedback_model_choice_witness:
  "executeLock feedback_cell = None \<and> backend groq_settings = js ''groq''
   \<and> apiKeyInput groq_settings \<noteq> []
   \<and> models_reply replying = Json (Some [js ''llama3-8b-8192'', js ''gemma-7b-it''])
   \<and> (\<exists>msgs. requests
          (snd (feedbackButton_onclick First printing example_format groq_settings replying
             feedback_cell))
        = [Get (js ''https://api.groq.com/openai/v1'' @ js ''/models'') (js ''gsk''),
           Post (js ''https://api.groq.com/openai/v1'' @ js ''/chat/completions'')
             (Some (js ''gsk''))
             \<lparr>messages = msgs, model = Some (js ''llama3-8b-8192'')\<rparr>])"
proof -
  have cfg: "backend groq_settings = js ''groq''" "apiKeyInput groq_settings = js ''gsk''"
    "baseUrlInput groq_settings = js ''https://api.groq.com/openai/v1''"
    by (simp_all add: groq_settings_def)
  have key: "js ''gsk'' \<noteq> []"
    by (simp add: js_def)
  have net: "models_reply replying = Json (Some [js ''llama3-8b-8192'', js ''gemma-7b-it''])"
    by (simp add: replying_def)
  have other: "js ''mixtral-8x7b-32768'' \<notin> set [js ''llama3-8b-8192'', js ''gemma-7b-it'']"
    by (simp add: js_def)
  have none: "requests feedback_cell = []"
    by (simp add: feedback_cell_def InteractiveCell_def)
  from feedback_model_choice [OF feedback_cell_executeLock cfg(1), of First printing
      example_format replying]
  show ?thesis
    using other by (simp add: cfg key net none feedback_cell_executeLock Let_def)
qed

subsection \<open>Reset on a run target without a feedback region\<close>

text \<open>
  C10: when \<^verbatim>\<open>globalThis.feedback\<close> is not true, a cell is constructed, and a run
  target is appended, without a feedback region, and no run creates one; on a run target
  without a feedback region, Reset sets the editor to the initial snapshot and then
  throws a TypeError, so that the state it leaves differs from the one it found in the
  editor's text only: the output and graphic regions keep what they held.
\<close>

theorem reset_fails_on_null_feedback_region:
  assumes "\<not> feedback"
  shows "outputFeedbackDiv (InteractiveCell feedback buttons cd :: 'v state) = None
         \<and> (\<forall>py fmt src (s :: 'v state).
               outputFeedbackDiv (snd (addCodeBlockButton_onclick feedback s)) = None
               \<and> (outputFeedbackDiv s = None \<longrightarrow>
                    outputFeedbackDiv (snd (runCode py fmt src s)) = None
                    \<and> resetButton_onclick s
                        = (Threw TypeError, s\<lparr>editor := initialCode s\<rparr>)))"
  using assms
  by (simp add: InteractiveCell_def addCodeBlockButton_onclick_frame runCode_frame
      reset_null_feedback_region)

text \<open>The claim on the default cell after a run.\<close>

theorem reset_fails_on_null_feedback_region_witness:
  "\<not> False
   \<and> outputFeedbackDiv default_cell = None
   \<and> fst (resetButton_onclick
        (snd (runCode printing example_format (js ''print(2)'') default_cell)))
      = Threw TypeError
   \<and> outputGraphDiv (snd (resetButton_onclick
        (snd (runCode printing example_format (js ''print(2)'') default_cell))))
      = outputGraphDiv (snd (runCode printing example_format (js ''print(2)'') default_cell))"
  using reset_fails_on_null_feedback_region [of False "[]" example_data, where 'v = unit]
  by (simp add: default_cell_def)

end
